theory Spec2Isabelle
  imports Main "HOL-Library.Sublist"
begin

section \<open>Python values\<close>

text \<open>
  The program is Python. \<open>json.loads\<close> turns the text printed by xcresulttool into a tree
  of \<open>None\<close>, \<open>bool\<close>, \<open>int\<close>, \<open>float\<close>, \<open>str\<close>, \<open>list\<close> and \<open>dict\<close>;
  \<open>json\<close> below is that tree. A \<open>dict\<close> is the list of its items in insertion order.
  A \<open>str\<close> is a \<open>string\<close> whose characters are the code points below 256. A \<open>float\<close>
  is \<open>nan\<close>, an infinity, or \<open>m * 2 ^ e\<close> for integers \<open>m\<close>, \<open>e\<close>, which
  is all that truth value and \<open>int()\<close> read of it. Exhausting the interpreter (recursion
  depth, memory) is outside the model.
\<close>

datatype pyfloat = Finite int int | PosInf | NegInf | NaN

datatype json =
    JNull
  | JBool bool
  | JInt int
  | JFloat pyfloat
  | JStr string
  | JList "json list"
  | JDict "(string \<times> json) list"

type_synonym pydict = "(string \<times> json) list"

datatype py_error = TypeError | ValueError | OverflowError | RuntimeError string

text \<open>\<open>bool(v)\<close>: the truth value Python gives a value in \<open>if v\<close>, \<open>a or b\<close>, \<open>not v\<close>.\<close>

fun truthy :: "json \<Rightarrow> bool" where
  "truthy JNull = False"
| "truthy (JBool b) = b"
| "truthy (JInt n) = (n \<noteq> 0)"
| "truthy (JFloat (Finite m e)) = (m \<noteq> 0)"
| "truthy (JFloat _) = True"
| "truthy (JStr s) = (s \<noteq> [])"
| "truthy (JList vs) = (vs \<noteq> [])"
| "truthy (JDict kvs) = (kvs \<noteq> [])"

text \<open>\<open>a or b\<close>: the first operand when it is true, the second otherwise.\<close>

definition py_or :: "json \<Rightarrow> json \<Rightarrow> json" where
  "py_or a b = (if truthy a then a else b)"

text \<open>\<open>k in d\<close>, \<open>d.get(k, default)\<close> and \<open>d.get(k)\<close> of a dict.\<close>

definition dict_has :: "pydict \<Rightarrow> string \<Rightarrow> bool" where
  "dict_has d k = (map_of d k \<noteq> None)"

definition dict_get :: "pydict \<Rightarrow> string \<Rightarrow> json \<Rightarrow> json" where
  "dict_get d k dflt = (case map_of d k of Some v \<Rightarrow> v | None \<Rightarrow> dflt)"

definition dict_get_none :: "pydict \<Rightarrow> string \<Rightarrow> json" where
  "dict_get_none d k = dict_get d k JNull"

subsection \<open>\<open>int()\<close>\<close>

definition is_digit :: "char \<Rightarrow> bool" where
  "is_digit c = (c \<in> set ''0123456789'')"

definition digit_val :: "char \<Rightarrow> nat" where
  "digit_val c = of_char c - 48"

definition digits_nat :: "string \<Rightarrow> nat" where
  "digits_nat ds = foldl (\<lambda>a c. 10 * a + digit_val c) 0 ds"

text \<open>
  The characters \<open>int()\<close> skips before and after the numeral of a \<open>str\<close>: tab, line feed,
  vertical tab, form feed, carriage return, space, and among the code points from 128 to
  255 the two Unicode spaces U+0085 and U+00A0.
\<close>

definition int_space :: "char \<Rightarrow> bool" where
  "int_space c = (c \<in> set [CHR 0x09, CHR 0x0A, CHR 0x0B, CHR 0x0C, CHR 0x0D, CHR 0x20,
                           CHR 0x85, CHR 0xA0])"

text \<open>Decimal digits, single underscores allowed between two digits.\<close>

fun digits_us :: "string \<Rightarrow> bool" where
  "digits_us [] = False"
| "digits_us [c] = is_digit c"
| "digits_us (c # d # r) =
     (is_digit c \<and> (if d = CHR ''_'' then digits_us r else digits_us (d # r)))"

text \<open>
  \<open>int(s)\<close> for a \<open>str\<close>, base 10: optional sign, then the digits. CPython refuses a
  numeral of more than 4300 digits (\<open>sys.int_info.default_max_str_digits\<close>).
\<close>

definition py_int_str :: "string \<Rightarrow> py_error + int" where
  "py_int_str s =
     (let t = rev (dropWhile int_space (rev (dropWhile int_space s)));
          neg = (t \<noteq> [] \<and> hd t = CHR ''-'');
          body = (if t \<noteq> [] \<and> (hd t = CHR ''-'' \<or> hd t = CHR ''+'') then tl t else t);
          ds = filter (\<lambda>c. c \<noteq> CHR ''_'') body
      in if digits_us body \<and> length ds \<le> 4300
         then Inr (if neg then - int (digits_nat ds) else int (digits_nat ds))
         else Inl ValueError)"

text \<open>\<open>int(x)\<close> of a float: the value with its fraction dropped, towards zero.\<close>

fun py_int_float :: "pyfloat \<Rightarrow> py_error + int" where
  "py_int_float NaN = Inl ValueError"
| "py_int_float PosInf = Inl OverflowError"
| "py_int_float NegInf = Inl OverflowError"
| "py_int_float (Finite m e) =
     (if 0 \<le> e then Inr (m * 2 ^ nat e)
      else if 0 \<le> m then Inr (m div 2 ^ nat (- e))
      else Inr (- ((- m) div 2 ^ nat (- e))))"

fun py_int :: "json \<Rightarrow> py_error + int" where
  "py_int (JInt n) = Inr n"
| "py_int (JBool b) = Inr (if b then 1 else 0)"
| "py_int (JFloat x) = py_int_float x"
| "py_int (JStr s) = py_int_str s"
| "py_int JNull = Inl TypeError"
| "py_int (JList vs) = Inl TypeError"
| "py_int (JDict kvs) = Inl TypeError"

section \<open>Count normalization\<close>

text \<open>
  \<open>deep_iter\<close> is a generator: it yields a dict, then what it yields for each of the
  dict's values in order; for a list, what it yields for each element. The list below is
  what the generator yields, in that order.
\<close>

fun deep_iter :: "json \<Rightarrow> json list" where
  "deep_iter (JDict kvs) = JDict kvs # concat (map (\<lambda>kv. deep_iter (snd kv)) kvs)"
| "deep_iter (JList vs) = concat (map deep_iter vs)"
| "deep_iter _ = []"

text \<open>The local function \<open>unwrap\<close> of \<open>extract_counts\<close>.\<close>

fun unwrap :: "json \<Rightarrow> json" where
  "unwrap (JDict kvs) = (if dict_has kvs ''_value'' then dict_get_none kvs ''_value'' else JDict kvs)"
| "unwrap v = v"

text \<open>\<open>int(unwrap(v) or 0)\<close>, the coercion applied to every count field.\<close>

definition coerce :: "json \<Rightarrow> py_error + int" where
  "coerce v = py_int (py_or (unwrap v) (JInt 0))"

text \<open>
  The body of a \<open>try\<close> block that reads three fields and returns them; \<open>None\<close> is the
  \<open>except Exception: pass\<close> branch, taken when one of the coercions raises.
\<close>

definition read3 :: "json \<Rightarrow> json \<Rightarrow> json \<Rightarrow> (int \<times> int \<times> int) option" where
  "read3 vp vf vs =
     (case coerce vp of Inl _ \<Rightarrow> None | Inr p \<Rightarrow>
      (case coerce vf of Inl _ \<Rightarrow> None | Inr f \<Rightarrow>
       (case coerce vs of Inl _ \<Rightarrow> None | Inr s \<Rightarrow> Some (p, f, s))))"

text \<open>The five blocks of the loop body, in the order of the source.\<close>

definition pattern_summary :: "pydict \<Rightarrow> (int \<times> int \<times> int) option" where
  "pattern_summary node =
     (if dict_has node ''passedTests'' \<and> dict_has node ''failedTests''
      then read3 (dict_get node ''passedTests'' (JInt 0))
                 (dict_get node ''failedTests'' (JInt 0))
                 (dict_get node ''skippedTests'' (JInt 0))
      else None)"

definition pattern_total :: "pydict \<Rightarrow> (int \<times> int \<times> int) option" where
  "pattern_total node =
     (if dict_has node ''totalTestCount''
         \<and> (dict_has node ''failedTests'' \<or> dict_has node ''testsFailedCount'')
      then (case coerce (dict_get node ''totalTestCount'' (JInt 0)) of Inl _ \<Rightarrow> None | Inr tot \<Rightarrow>
            (case coerce (dict_get node ''failedTests''
                            (dict_get node ''testsFailedCount'' (JInt 0))) of Inl _ \<Rightarrow> None | Inr f \<Rightarrow>
             (case coerce (dict_get node ''skippedTests''
                             (dict_get node ''testsSkippedCount'' (JInt 0))) of Inl _ \<Rightarrow> None | Inr s \<Rightarrow>
              Some (max (tot - f - s) 0, f, s))))
      else None)"

definition pattern_a :: "pydict \<Rightarrow> (int \<times> int \<times> int) option" where
  "pattern_a node =
     (if dict_has node ''passed'' \<and> dict_has node ''failed''
      then read3 (dict_get node ''passed'' (JInt 0))
                 (dict_get node ''failed'' (JInt 0))
                 (dict_get node ''skipped'' (JInt 0))
      else None)"

definition pattern_b :: "pydict \<Rightarrow> (int \<times> int \<times> int) option" where
  "pattern_b node =
     (if dict_has node ''testsPassedCount'' \<and> dict_has node ''testsFailedCount''
      then read3 (dict_get node ''testsPassedCount'' (JInt 0))
                 (dict_get node ''testsFailedCount'' (JInt 0))
                 (dict_get node ''testsSkippedCount'' (JInt 0))
      else None)"

definition pattern_count :: "pydict \<Rightarrow> (int \<times> int \<times> int) option" where
  "pattern_count node =
     (if dict_has node ''passedCount'' \<and> dict_has node ''failedCount''
      then read3 (dict_get node ''passedCount'' (JInt 0))
                 (dict_get node ''failedCount'' (JInt 0))
                 (dict_get node ''skippedCount'' (JInt 0))
      else None)"

text \<open>One pass of the loop body: the first block that returns, if any.\<close>

definition node_counts :: "pydict \<Rightarrow> (int \<times> int \<times> int) option" where
  "node_counts node =
     (case pattern_summary node of Some r \<Rightarrow> Some r | None \<Rightarrow>
      (case pattern_total node of Some r \<Rightarrow> Some r | None \<Rightarrow>
       (case pattern_a node of Some r \<Rightarrow> Some r | None \<Rightarrow>
        (case pattern_b node of Some r \<Rightarrow> Some r | None \<Rightarrow>
         pattern_count node))))"

text \<open>The \<open>for node in deep_iter(data)\<close> loop over what the generator yields.\<close>

fun scan_nodes :: "json list \<Rightarrow> (int \<times> int \<times> int) option" where
  "scan_nodes [] = None"
| "scan_nodes (JDict kvs # ns) =
     (case node_counts kvs of Some r \<Rightarrow> Some r | None \<Rightarrow> scan_nodes ns)"
| "scan_nodes (_ # ns) = scan_nodes ns"

definition extract_counts :: "json \<Rightarrow> int \<times> int \<times> int" where
  "extract_counts data =
     (case scan_nodes (deep_iter data) of Some r \<Rightarrow> r | None \<Rightarrow> (0, 0, 0))"

text \<open>The key-set tests of the five blocks, without the coercions.\<close>

definition matches_pattern :: "pydict \<Rightarrow> bool" where
  "matches_pattern node =
     ((dict_has node ''passedTests'' \<and> dict_has node ''failedTests'')
      \<or> (dict_has node ''totalTestCount''
          \<and> (dict_has node ''failedTests'' \<or> dict_has node ''testsFailedCount''))
      \<or> (dict_has node ''passed'' \<and> dict_has node ''failed'')
      \<or> (dict_has node ''testsPassedCount'' \<and> dict_has node ''testsFailedCount'')
      \<or> (dict_has node ''passedCount'' \<and> dict_has node ''failedCount''))"

subsection \<open>Notions the statements about count normalization use\<close>

text \<open>
  An integer count as the summary gives it: the integer itself, or the one-key mapping
  \<open>{"_value": N}\<close> around it.
\<close>

fun wrapped_int :: "json \<Rightarrow> int option" where
  "wrapped_int (JInt n) = Some n"
| "wrapped_int (JDict [(k, JInt n)]) = (if k = ''_value'' then Some n else None)"
| "wrapped_int _ = None"

text \<open>
  The value of a count field, taken out of its wrapper \<open>{"_value": x}\<close> when it has
  one. A field is false when that value is false as a Python value (\<open>None\<close>, \<open>""\<close>,
  \<open>False\<close>, 0, an empty list or dict), and unreadable when that value is true as a
  Python value and \<open>int()\<close> raises on it.
\<close>

fun field_value :: "json \<Rightarrow> json" where
  "field_value (JDict kvs) = (case map_of kvs ''_value'' of Some x \<Rightarrow> x | None \<Rightarrow> JDict kvs)"
| "field_value v = v"

definition falsy_field :: "json \<Rightarrow> bool" where
  "falsy_field v = (\<not> truthy (field_value v))"

definition unreadable :: "json \<Rightarrow> bool" where
  "unreadable v = (truthy (field_value v) \<and> isl (py_int (field_value v)))"

text \<open>
  The keys under which the five patterns read a count. \<open>field_reads node x\<close>: the mapping
  has a count field that \<open>int()\<close> reads as \<open>x\<close>; \<open>from_count_field doc x\<close>: some mapping of
  the document has one.
\<close>

definition count_keys :: "string list" where
  "count_keys = [''passedTests'', ''failedTests'', ''skippedTests'', ''totalTestCount'',
                 ''testsFailedCount'', ''testsSkippedCount'', ''passed'', ''failed'', ''skipped'',
                 ''testsPassedCount'', ''passedCount'', ''failedCount'', ''skippedCount'']"

definition field_reads :: "pydict \<Rightarrow> int \<Rightarrow> bool" where
  "field_reads node x =
     list_ex (\<lambda>k. case map_of node k of
                     Some v \<Rightarrow> py_int (field_value v) = Inr x
                   | None \<Rightarrow> False) count_keys"

definition from_count_field :: "json \<Rightarrow> int \<Rightarrow> bool" where
  "from_count_field doc x =
     list_ex (\<lambda>n. case n of JDict node \<Rightarrow> field_reads node x | _ \<Rightarrow> False) (deep_iter doc)"

section \<open>Text\<close>

text \<open>
  \<open>str(n)\<close> of an \<open>int\<close>, which is also what an f-string puts for \<open>{n}\<close>: the decimal
  numeral, with a minus sign when negative.
\<close>

fun show_nat :: "nat \<Rightarrow> string" where
  "show_nat n =
     (if n < 10 then [''0123456789'' ! n]
      else show_nat (n div 10) @ [''0123456789'' ! (n mod 10)])"

declare show_nat.simps [simp del]

definition show_int :: "int \<Rightarrow> string" where
  "show_int i = (if i < 0 then CHR ''-'' # show_nat (nat (- i)) else show_nat (nat i))"

text \<open>
  \<open>str(v)\<close> and \<open>{v}\<close> in an f-string, for a value of the JSON tree. For a \<open>float\<close>, a
  \<open>list\<close> and a \<open>dict\<close> the text is Python's \<open>repr\<close>, which is not modelled: it is the
  parameter \<open>R\<close>, and what is proved holds for every \<open>R\<close>.
\<close>

fun py_str :: "(json \<Rightarrow> string) \<Rightarrow> json \<Rightarrow> string" where
  "py_str R (JStr s) = s"
| "py_str R (JInt n) = show_int n"
| "py_str R (JBool b) = (if b then ''True'' else ''False'')"
| "py_str R JNull = ''None''"
| "py_str R v = R v"

text \<open>\<open>s.split(c)\<close> for a one-character separator: never an empty list.\<close>

fun split_on :: "char \<Rightarrow> string \<Rightarrow> string list" where
  "split_on c [] = [[]]"
| "split_on c (x # xs) =
     (if x = c then [] # split_on c xs
      else (case split_on c xs of p # ps \<Rightarrow> (x # p) # ps | [] \<Rightarrow> [[x]]))"

section \<open>The report\<close>

subsection \<open>The literal text of \<open>build_html\<close>\<close>

text \<open>
  The pieces of the string literals of \<open>build_html\<close> between two interpolations, in the
  order of the source.
\<close>

definition head_doctype :: string where
  \<open>head_doctype = ''<!doctype html>
<html lang="en">
<head>
  <meta charset="utf-8" />
  <title>''\<close>

definition head_style :: string where
  \<open>head_style = ''</title>
  <meta name="viewport" content="width=device-width, initial-scale=1" />
  <meta name="color-scheme" content="dark" />
  <style>
    body { font-family: -apple-system, BlinkMacSystemFont, 'Segoe UI', Roboto,
                Arial, sans-serif; margin: 32px; background: #1a1a1a; color: #e0e0e0; }
    .card { border: 1px solid #3a3a3a; border-radius: 12px; padding: 20px;
             max-width: 720px; box-shadow: 0 4px 12px rgba(0,0,0,0.3); background: #2b2b2b; }
    h1, h2 { margin: 0 0 8px 0; font-size: 22px; color: #fff; }
    h2 { font-size: 18px; margin-top: 4px; }
    .meta { color: #9ca3af; margin-bottom: 16px; font-size: 14px; }
    .grid { display: grid; grid-template-columns: repeat(4, 1fr); gap: 10px;
             margin: 16px 0 12px; }
    .kpi { border: 1px solid #3a3a3a; border-radius: 10px; padding: 12px;
            text-align: center; background: #1f1f1f; }
    .kpi .label { color: #9ca3af; font-size: 12px; }
    .kpi .value { font-size: 20px; margin-top: 6px; color: #fff; }
    .small { color: #9ca3af; font-size: 12px; margin-top: 10px; }
    canvas { max-width: 520px; margin: auto; }
    table { color: #e0e0e0; }
    th { color: #d1d5db; }
    @media print {
      body { background: #fff !important; color: #111 !important; -webkit-print-color-adjust: exact; print-color-adjust: exact; }
      .card { background: #fff !important; border-color: #333 !important; box-shadow: none !important; color: #111 !important; }
      .card * { color: #111 !important; }
      h1, h2 { color: #111 !important; }
      .meta, .small, .kpi .label { color: #444 !important; }
      .kpi { background: #f5f5f5 !important; border-color: #ccc !important; color: #111 !important; }
      .kpi .value { color: #111 !important; }
      table, th, td { color: #111 !important; border-color: #333 !important; }
      td { border-bottom-color: #ddd !important; }
      body > p { color: #444 !important; }
    }
  </style>
</head>
<body>
  <div class="card">
    <h1>''\<close>

definition card_intro :: string where
  \<open>card_intro = ''</h1>
    <div class="meta">This report is intended to be a quick overview of the test results. For detailed test results, please view the original xcresult bundle.</div>
    <div class="grid">
      <div class="kpi"><div class="label">Total</div><div class="value">''\<close>

definition kpi_passed :: string where
  \<open>kpi_passed = ''</div></div>
      <div class="kpi"><div class="label">Passed</div><div class="value">''\<close>

definition kpi_failed :: string where
  \<open>kpi_failed = ''</div></div>
      <div class="kpi"><div class="label">Failed</div><div class="value">''\<close>

definition kpi_skipped :: string where
  \<open>kpi_skipped = ''</div></div>
      <div class="kpi"><div class="label">Skipped</div><div class="value">''\<close>

definition kpi_close :: string where
  \<open>kpi_close = ''</div></div>
    </div>
    <canvas id="pie" width="520" height="320"></canvas>
    <div class="small">Source: ''\<close>

definition card_close :: string where
  \<open>card_close = ''</div>
  </div>''\<close>

definition details_open :: string where
  \<open>details_open = ''
  <div class="card" style="margin-top:24px;">
    <h2>Test details</h2>
    <p class="meta">''\<close>

definition details_thead :: string where
  \<open>details_thead = ''</p>
    <table style="width:100%; border-collapse:collapse; font-size:13px;">
      <thead>
        <tr>
          <th style="text-align:left; border-bottom:1px solid #404040; padding:6px;">Test</th>
          <th style="text-align:left; border-bottom:1px solid #404040; padding:6px;">Suite</th>
          <th style="text-align:left; border-bottom:1px solid #404040; padding:6px;">Status</th>''\<close>

definition th_failure :: string where
  \<open>th_failure = ''
          <th style="text-align:left; border-bottom:1px solid #404040; padding:6px;">Failure</th>''\<close>

definition thead_close :: string where
  \<open>thead_close = ''
        </tr>
      </thead>
      <tbody>
''\<close>

definition row_open :: string where
  \<open>row_open = ''        <tr>
          <td style="border-bottom:1px solid #404040; padding:4px 6px;">''\<close>

definition cell_suite :: string where
  \<open>cell_suite = ''</td>
          <td style="border-bottom:1px solid #404040; padding:4px 6px;">''\<close>

definition cell_status :: string where
  \<open>cell_status = ''</td>
          <td style="border-bottom:1px solid #404040; padding:4px 6px; color:''\<close>

definition cell_status_style :: string where
  \<open>cell_status_style = ''; font-weight:bold;">''\<close>

definition cell_close :: string where
  \<open>cell_close = ''</td>''\<close>

definition cell_failure :: string where
  \<open>cell_failure = ''
          <td style="border-bottom:1px solid #404040; padding:4px 6px; font-size:12px; color:#9ca3af;">''\<close>

definition row_close :: string where
  \<open>row_close = ''
        </tr>
''\<close>

definition shots_open :: string where
  \<open>shots_open = ''        <tr>
          <td colspan="''\<close>

definition shots_style :: string where
  \<open>shots_style = ''" style="border-bottom:1px solid #404040; padding:8px 6px; background:#1f1f1f;">
            <div style="font-size:11px; color:#9ca3af; margin-bottom:4px;">Screenshots</div>
            <div style="display:flex; flex-wrap:wrap; gap:8px;">''\<close>

definition img_src :: string where
  \<open>img_src = ''<img src="''\<close>

definition img_alt :: string where
  \<open>img_alt = ''" alt="''\<close>

definition img_style :: string where
  \<open>img_style = ''" style="max-width:280px; max-height:200px; border:1px solid #404040; border-radius:4px;" />''\<close>

definition more_open :: string where
  \<open>more_open = ''<span style="font-size:12px; color:#9ca3af;">+''\<close>

definition more_close :: string where
  \<open>more_close = '' more</span>''\<close>

definition shots_close :: string where
  \<open>shots_close = ''</div>
          </td>
        </tr>
''\<close>

definition details_close :: string where
  \<open>details_close = ''      </tbody>
    </table>
  </div>
''\<close>

definition script_open :: string where
  \<open>script_open = ''
  <script src="https://cdn.jsdelivr.net/npm/chart.js"></script>
  <script>
    Chart.defaults.color = '#d1d5db';
    Chart.defaults.borderColor = '#404040';
    const ctx = document.getElementById('pie');
    new Chart(ctx, {
      type: 'pie',
      data: {
        labels: ['Passed', 'Failed', 'Skipped'],
        datasets: [{ data: [''\<close>

definition script_close :: string where
  \<open>script_close = ''],
          backgroundColor: ['#22c55e', '#ef4444', '#f59e0b'],
          borderColor: '#2b2b2b',
          borderWidth: 2 }]
      },
      options: {
        responsive: true,
        plugins: { legend: { position: 'bottom', labels: { color: '#d1d5db' } }, title: { display: false } }
      }
    });
  </script>
  <hr style="border: none; border-top: 1px solid #404040; margin: 24px 0 0 0;" />
  <br /><br /><br />
  <p style="color: #6b7280; font-size: 12px; margin: 0;">This was built with passion</p>
</body>
</html>
''\<close>

subsection \<open>\<open>build_html\<close>\<close>

text \<open>
  \<open>select_screenshots\<close> is the lookup of the screenshot row: \<open>screenshot_map.get(test_id)\<close>,
  and when that is missing or empty, the entry of the first key of the map, in the map's
  order, for which \<open>test_id in key or key.endswith(test_id) or (test_id and
  key.split("/")[-1] == test_id.split("/")[-1])\<close> holds. A \<open>list\<close> or \<open>dict\<close> as
  \<open>test_id\<close> cannot be hashed; another value that is not a \<open>str\<close> is looked up without
  error and then fails at \<open>test_id in key\<close>.
\<close>

definition status_color :: "json \<Rightarrow> string" where
  "status_color status =
     (if status = JStr ''Failed'' then ''#ef4444''
      else if status = JStr ''Passed'' then ''#22c55e'' else ''#f59e0b'')"

definition key_matches :: "string \<Rightarrow> string \<Rightarrow> bool" where
  "key_matches test_id key =
     (sublist test_id key \<or> suffix test_id key
      \<or> (test_id \<noteq> [] \<and> last (split_on CHR ''/'' key) = last (split_on CHR ''/'' test_id)))"

definition first_matching_key :: "string \<Rightarrow> (string \<times> string list) list \<Rightarrow> string option" where
  "first_matching_key test_id screenshot_map =
     map_option fst (find (\<lambda>kv. key_matches test_id (fst kv)) screenshot_map)"

definition falsy_imgs :: "string list option \<Rightarrow> bool" where
  "falsy_imgs imgs = (imgs = None \<or> imgs = Some [])"

definition select_screenshots ::
  "json \<Rightarrow> (string \<times> string list) list \<Rightarrow> py_error + string list option" where
  "select_screenshots test_id screenshot_map =
     (case test_id of
        JList _ \<Rightarrow> Inl TypeError
      | JDict _ \<Rightarrow> Inl TypeError
      | JStr tid \<Rightarrow>
          (let imgs = map_of screenshot_map tid
           in if falsy_imgs imgs
              then (case first_matching_key tid screenshot_map of
                      Some key \<Rightarrow> Inr (map_of screenshot_map key)
                    | None \<Rightarrow> Inr imgs)
              else Inr imgs)
      | _ \<Rightarrow> (if screenshot_map = [] then Inr None else Inl TypeError))"

definition img_tag :: "string \<Rightarrow> string \<Rightarrow> string" where
  "img_tag screenshot_dir_relative fn =
     img_src @ (screenshot_dir_relative @ ''/'' @ fn) @ img_alt @ fn @ img_style"

definition screenshot_row :: "bool \<Rightarrow> string \<Rightarrow> string list \<Rightarrow> string" where
  "screenshot_row has_failures screenshot_dir_relative imgs =
     shots_open @ (if has_failures then ''4'' else ''3'') @ shots_style
     @ concat (map (img_tag screenshot_dir_relative) (take 10 imgs))
     @ (if 10 < length imgs then more_open @ show_int (int (length imgs) - 10) @ more_close
        else [])
     @ shots_close"

definition detail_row ::
  "(json \<Rightarrow> string) \<Rightarrow> bool \<Rightarrow> bool \<Rightarrow> string \<Rightarrow> (string \<times> string list) list
     \<Rightarrow> pydict \<Rightarrow> py_error + string" where
  "detail_row R has_failures has_screenshots screenshot_dir_relative screenshot_map item =
     (let name = dict_get item ''name'' (JStr '''');
          suite = dict_get item ''suite'' (JStr '''');
          status = dict_get item ''status'' (JStr '''');
          failure = dict_get item ''failure'' (JStr '''');
          test_id = dict_get item ''testIdentifierString'' (JStr '''');
          row = row_open @ py_str R name @ cell_suite @ py_str R suite @ cell_status
                @ status_color status @ cell_status_style @ py_str R status @ cell_close
                @ (if has_failures then cell_failure @ py_str R failure @ cell_close else [])
                @ row_close
      in if has_screenshots
         then (case select_screenshots test_id screenshot_map of
                 Inl e \<Rightarrow> Inl e
               | Inr imgs \<Rightarrow>
                   Inr (row @ (if falsy_imgs imgs then []
                               else screenshot_row has_failures screenshot_dir_relative (the imgs))))
         else Inr row)"

fun detail_rows ::
  "(json \<Rightarrow> string) \<Rightarrow> bool \<Rightarrow> bool \<Rightarrow> string \<Rightarrow> (string \<times> string list) list
     \<Rightarrow> pydict list \<Rightarrow> py_error + string" where
  "detail_rows R hf hs sdir smap [] = Inr []"
| "detail_rows R hf hs sdir smap (item # items) =
     (case detail_row R hf hs sdir smap item of
        Inl e \<Rightarrow> Inl e
      | Inr row \<Rightarrow>
          (case detail_rows R hf hs sdir smap items of
             Inl e \<Rightarrow> Inl e
           | Inr rows \<Rightarrow> Inr (row @ rows)))"

definition details_section ::
  "(json \<Rightarrow> string) \<Rightarrow> pydict list option \<Rightarrow> string option
     \<Rightarrow> (string \<times> string list) list option \<Rightarrow> py_error + string" where
  "details_section R details screenshot_dir_relative screenshot_map =
     (case details of
        None \<Rightarrow> Inr []
      | Some [] \<Rightarrow> Inr []
      | Some items \<Rightarrow>
          (let has_screenshots =
                 (screenshot_dir_relative \<noteq> None \<and> screenshot_dir_relative \<noteq> Some []
                  \<and> screenshot_map \<noteq> None \<and> screenshot_map \<noteq> Some []);
               has_failures = list_ex (\<lambda>item. truthy (dict_get_none item ''failure'')) items;
               meta_note =
                 (if has_screenshots then ''Screenshots included below when available.''
                  else ''Best-effort list of tests discovered in the xcresult summary. Screenshots and other rich attachments are not included.'')
           in case detail_rows R has_failures has_screenshots
                     (case screenshot_dir_relative of Some d \<Rightarrow> d | None \<Rightarrow> [])
                     (case screenshot_map of Some m \<Rightarrow> m | None \<Rightarrow> []) items of
                Inl e \<Rightarrow> Inl e
              | Inr rows \<Rightarrow>
                  Inr (details_open @ meta_note @ details_thead
                       @ (if has_failures then th_failure else [])
                       @ thead_close @ rows @ details_close)))"

definition build_html ::
  "(json \<Rightarrow> string) \<Rightarrow> int \<Rightarrow> int \<Rightarrow> int \<Rightarrow> string \<Rightarrow> string \<Rightarrow> pydict list option
     \<Rightarrow> string option \<Rightarrow> (string \<times> string list) list option \<Rightarrow> py_error + string" where
  "build_html R passed failed skipped source_name title details screenshot_dir_relative
       screenshot_map =
     (let total_n = passed + failed + skipped;
          html = head_doctype @ title @ head_style @ title @ card_intro @ show_int total_n
                 @ kpi_passed @ show_int passed @ kpi_failed @ show_int failed
                 @ kpi_skipped @ show_int skipped @ kpi_close @ source_name @ card_close
      in case details_section R details screenshot_dir_relative screenshot_map of
           Inl e \<Rightarrow> Inl e
         | Inr details_html \<Rightarrow>
             Inr (html @ details_html @ script_open @ show_int passed @ '', '' @ show_int failed
                  @ '', '' @ show_int skipped @ script_close))"

subsection \<open>Reading a report back\<close>

text \<open>
  Reading the report back. \<open>read_int\<close> reads a decimal integer at the start of a text,
  \<open>read_int_rev\<close> one at the end of a text given reversed, \<open>expect\<close> removes a
  literal from the start. \<open>reparse_kpis\<close> reads the numerals of the four summary boxes of
  a report with the given heading; \<open>reparse_chart\<close> reads the data array of the chart
  script, which closes the document.
\<close>

definition read_int :: "string \<Rightarrow> (int \<times> string) option" where
  "read_int s =
     (let neg = (s \<noteq> [] \<and> hd s = CHR ''-'');
          r = (if neg then tl s else s);
          ds = takeWhile is_digit r
      in if ds = [] then None
         else Some (if neg then - int (digits_nat ds) else int (digits_nat ds),
                    dropWhile is_digit r))"

definition read_int_rev :: "string \<Rightarrow> (int \<times> string) option" where
  "read_int_rev s =
     (let ds = takeWhile is_digit s;
          r = dropWhile is_digit s;
          neg = (r \<noteq> [] \<and> hd r = CHR ''-'')
      in if ds = [] then None
         else Some (if neg then - int (digits_nat (rev ds)) else int (digits_nat (rev ds)),
                    if neg then tl r else r))"

definition expect :: "string \<Rightarrow> string \<Rightarrow> string option" where
  "expect lit s = (if prefix lit s then Some (drop (length lit) s) else None)"

definition reparse_kpis :: "string \<Rightarrow> string \<Rightarrow> (int \<times> int \<times> int) option" where
  "reparse_kpis title html =
     (case expect (head_doctype @ title @ head_style @ title @ card_intro) html of
        None \<Rightarrow> None
      | Some r0 \<Rightarrow>
     (case read_int r0 of None \<Rightarrow> None | Some (total_n, r1) \<Rightarrow>
     (case expect kpi_passed r1 of None \<Rightarrow> None | Some r2 \<Rightarrow>
     (case read_int r2 of None \<Rightarrow> None | Some (passed, r3) \<Rightarrow>
     (case expect kpi_failed r3 of None \<Rightarrow> None | Some r4 \<Rightarrow>
     (case read_int r4 of None \<Rightarrow> None | Some (failed, r5) \<Rightarrow>
     (case expect kpi_skipped r5 of None \<Rightarrow> None | Some r6 \<Rightarrow>
     (case read_int r6 of None \<Rightarrow> None | Some (skipped, r7) \<Rightarrow>
     (case expect kpi_close r7 of None \<Rightarrow> None | Some r8 \<Rightarrow>
        Some (passed, failed, skipped))))))))))"

definition reparse_chart :: "string \<Rightarrow> (int \<times> int \<times> int) option" where
  "reparse_chart html =
     (case expect (rev script_close) (rev html) of None \<Rightarrow> None | Some r0 \<Rightarrow>
     (case read_int_rev r0 of None \<Rightarrow> None | Some (skipped, r1) \<Rightarrow>
     (case expect (rev '', '') r1 of None \<Rightarrow> None | Some r2 \<Rightarrow>
     (case read_int_rev r2 of None \<Rightarrow> None | Some (failed, r3) \<Rightarrow>
     (case expect (rev '', '') r3 of None \<Rightarrow> None | Some r4 \<Rightarrow>
     (case read_int_rev r4 of None \<Rightarrow> None | Some (passed, r5) \<Rightarrow>
     (case expect (rev ''data: ['') r5 of None \<Rightarrow> None | Some r6 \<Rightarrow>
        Some (passed, failed, skipped))))))))"

subsection \<open>Notions the statements about screenshot matching use\<close>




subsection \<open>Notions the statements about the text of a row use\<close>

text \<open>
  HTML escaping of a text, as \<open>html.escape\<close> of the Python library does it: the
  ampersand, the angle brackets and the two quotes are replaced by character references.
\<close>

fun escape_char :: "char \<Rightarrow> string" where
  "escape_char c =
     (if c = CHR ''&'' then ''&amp;''
      else if c = CHR ''<'' then ''&lt;''
      else if c = CHR ''>'' then ''&gt;''
      else if c = CHR 0x22 then ''&quot;''
      else if c = CHR 0x27 then ''&#x27;''
      else [c])"

definition html_escape :: "string \<Rightarrow> string" where
  "html_escape s = concat (map escape_char s)"

section \<open>Detail extraction\<close>

text \<open>
  \<open>x[:100]\<close>: the first 100 items of a \<open>str\<close> or a \<open>list\<close>; the other values of the
  JSON tree cannot be sliced.
\<close>

fun slice100 :: "json \<Rightarrow> py_error + json" where
  "slice100 (JStr s) = Inr (JStr (take 100 s))"
| "slice100 (JList vs) = Inr (JList (take 100 vs))"
| "slice100 _ = Inl TypeError"

text \<open>
  The body of the loop of \<open>_extract_details_from_summary\<close> for one entry that is a dict:
  the record appended to \<open>details\<close>, if any. The record is the list of its items in the
  order the dict display of the source gives them.
\<close>

definition failure_detail :: "(json \<Rightarrow> string) \<Rightarrow> pydict \<Rightarrow> py_error + pydict option" where
  "failure_detail R failure =
     (let test_name = py_or (py_or (dict_get_none failure ''testName'')
                                   (dict_get_none failure ''testIdentifierString'')) (JStr '''');
          test_id = py_or (py_or (dict_get_none failure ''testIdentifierString'')
                                 (dict_get_none failure ''testIdentifierURL'')) (JStr '''');
          target = py_or (dict_get_none failure ''targetName'') (JStr '''');
          failure_text = py_or (dict_get_none failure ''failureText'') (JStr '''')
      in if truthy test_name
         then (let suite =
                     (if truthy test_id \<and> CHR ''/'' \<in> set (py_str R test_id)
                      then (let parts = split_on CHR ''/'' (py_str R test_id)
                            in if 2 \<le> length parts then JStr (parts ! (length parts - 2))
                               else target)
                      else JStr '''')
               in case (if truthy failure_text then slice100 failure_text
                        else Inr (JStr '''')) of
                    Inl e \<Rightarrow> Inl e
                  | Inr excerpt \<Rightarrow>
                      Inr (Some [(''name'', test_name),
                                 (''status'', JStr ''Failed''),
                                 (''suite'', py_or suite target),
                                 (''failure'', excerpt),
                                 (''testIdentifierString'', py_or test_id (JStr ''''))]))
         else Inr None)"

text \<open>The loop over \<open>data["testFailures"]\<close>; an entry that is not a dict is passed over.\<close>

fun collect_details :: "(json \<Rightarrow> string) \<Rightarrow> json list \<Rightarrow> py_error + pydict list" where
  "collect_details R [] = Inr []"
| "collect_details R (JDict failure # rest) =
     (case failure_detail R failure of
        Inl e \<Rightarrow> Inl e
      | Inr row \<Rightarrow>
          (case collect_details R rest of
             Inl e \<Rightarrow> Inl e
           | Inr rows \<Rightarrow> Inr ((case row of Some r \<Rightarrow> [r] | None \<Rightarrow> []) @ rows)))"
| "collect_details R (_ # rest) = collect_details R rest"

text \<open>
  \<open>_extract_details_from_summary\<close>: \<open>None\<close> when there is nothing to list. Its calls of
  \<open>_log\<close>, which never raise, are left out.
\<close>

fun extract_details_from_summary ::
  "(json \<Rightarrow> string) \<Rightarrow> json \<Rightarrow> py_error + pydict list option" where
  "extract_details_from_summary R (JDict data) =
     (case map_of data ''testFailures'' of
        Some (JList failures) \<Rightarrow>
          (case collect_details R failures of
             Inl e \<Rightarrow> Inl e
           | Inr details \<Rightarrow> Inr (if details \<noteq> [] then Some details else None))
      | _ \<Rightarrow> Inr None)"
| "extract_details_from_summary R _ = Inr None"

subsection \<open>Notions the statements about detail extraction use\<close>

text \<open>
  The text of a field of a failure entry: the string it holds, empty when the key is absent
  or holds \<open>null\<close>. An entry is textual when each of the five fields the extraction reads
  is absent, \<open>null\<close> or a string.
\<close>

definition field_text :: "pydict \<Rightarrow> string \<Rightarrow> string" where
  "field_text entry k = (case map_of entry k of Some (JStr s) \<Rightarrow> s | _ \<Rightarrow> [])"

definition is_text :: "json option \<Rightarrow> bool" where
  "is_text v = (case v of None \<Rightarrow> True | Some JNull \<Rightarrow> True | Some (JStr s) \<Rightarrow> True
                | _ \<Rightarrow> False)"

definition text_entry :: "pydict \<Rightarrow> bool" where
  "text_entry entry =
     list_all (\<lambda>k. is_text (map_of entry k))
       [''testName'', ''testIdentifierString'', ''testIdentifierURL'', ''targetName'',
        ''failureText'']"

text \<open>
  The second-to-last segment of a slash-delimited text, read from its end: what stands
  between the last slash and the slash before it, or the start of the text.
\<close>

definition second_to_last :: "string \<Rightarrow> string" where
  "second_to_last s =
     rev (takeWhile (\<lambda>c. c \<noteq> CHR ''/'')
            (drop 1 (dropWhile (\<lambda>c. c \<noteq> CHR ''/'') (rev s))))"

text \<open>
  The record a textual entry stands for: named by \<open>testName\<close>, else by
  \<open>testIdentifierString\<close>; identified by \<open>testIdentifierString\<close>, else by
  \<open>testIdentifierURL\<close>; no record when the name is empty.
\<close>

definition expected_record :: "pydict \<Rightarrow> pydict option" where
  "expected_record entry =
     (let name = (if field_text entry ''testName'' \<noteq> [] then field_text entry ''testName''
                  else field_text entry ''testIdentifierString'');
          ident = (if field_text entry ''testIdentifierString'' \<noteq> []
                   then field_text entry ''testIdentifierString''
                   else field_text entry ''testIdentifierURL'');
          target = field_text entry ''targetName'';
          suite = (if CHR ''/'' \<in> set ident \<and> second_to_last ident \<noteq> []
                   then second_to_last ident else target)
      in if name = [] then None
         else Some [(''name'', JStr name),
                    (''status'', JStr ''Failed''),
                    (''suite'', JStr suite),
                    (''failure'', JStr (take 100 (field_text entry ''failureText''))),
                    (''testIdentifierString'', JStr ident)])"

fun expected_records :: "json list \<Rightarrow> pydict list" where
  "expected_records [] = []"
| "expected_records (JDict entry # rest) =
     (case expected_record entry of Some r \<Rightarrow> r # expected_records rest
      | None \<Rightarrow> expected_records rest)"
| "expected_records (_ # rest) = expected_records rest"

section \<open>The conversion\<close>






subsection \<open>\<open>run_xcresulttool\<close>\<close>




subsection \<open>\<open>_process_xcresult_to_html\<close>\<close>





subsection \<open>Notions the statements about the conversion use\<close>




section \<open>Properties of count normalization\<close>

lemma node_counts_no_match: "\<not> matches_pattern node \<Longrightarrow> node_counts node = None"
  by (auto simp: matches_pattern_def node_counts_def pattern_summary_def pattern_total_def
      pattern_a_def pattern_b_def pattern_count_def)

lemma scan_nodes_none:
  "(\<And>kvs. JDict kvs \<in> set ns \<Longrightarrow> node_counts kvs = None) \<Longrightarrow> scan_nodes ns = None"
  by (induction ns rule: scan_nodes.induct) auto

text \<open>
  C5. A document none of whose mappings has the keys of one of the five patterns
  normalizes to (0, 0, 0); the empty object is such a document. The result is a value:
  \<open>extract_counts\<close> has no raising branch.
\<close>

theorem no_pattern_gives_zero:
  "(\<forall>kvs. JDict kvs \<in> set (deep_iter doc) \<longrightarrow> \<not> matches_pattern kvs)
     \<longrightarrow> extract_counts doc = (0, 0, 0)"
  by (simp add: extract_counts_def scan_nodes_none node_counts_no_match)

theorem no_pattern_gives_zero_witness:
  "deep_iter (JDict [(''passedTests'', JInt 5), (''runs'', JList [JDict [(''failed'', JInt 1)]])])
     = [JDict [(''passedTests'', JInt 5), (''runs'', JList [JDict [(''failed'', JInt 1)]])],
        JDict [(''failed'', JInt 1)]]
   \<and> extract_counts
        (JDict [(''passedTests'', JInt 5), (''runs'', JList [JDict [(''failed'', JInt 1)]])])
       = (0, 0, 0)"
  using no_pattern_gives_zero
    [of "JDict [(''passedTests'', JInt 5), (''runs'', JList [JDict [(''failed'', JInt 1)]])]"]
  by (auto simp: matches_pattern_def dict_has_def)

subsection \<open>The traversal\<close>

lemma scan_nodes_skip:
  "(\<And>kvs. JDict kvs \<in> set pre \<Longrightarrow> node_counts kvs = None)
     \<Longrightarrow> scan_nodes (pre @ rest) = scan_nodes rest"
  by (induction pre rule: scan_nodes.induct) auto

lemma scan_nodes_Some:
  "scan_nodes ns = Some r \<Longrightarrow> \<exists>kvs. JDict kvs \<in> set ns \<and> node_counts kvs = Some r"
  by (induction ns rule: scan_nodes.induct) (auto split: option.splits)

lemma extract_counts_first:
  assumes "deep_iter doc = pre @ JDict node # post"
    and "\<And>kvs. JDict kvs \<in> set pre \<Longrightarrow> node_counts kvs = None"
    and "node_counts node = Some r"
  shows "extract_counts doc = r"
  using assms by (simp add: extract_counts_def scan_nodes_skip)

subsection \<open>The coercion\<close>

lemma wrapped_int_coerce: "wrapped_int v = Some n \<Longrightarrow> coerce v = Inr n"
  by (induction v rule: wrapped_int.induct)
     (auto simp: coerce_def py_or_def dict_has_def dict_get_none_def dict_get_def split: if_splits)

lemma read3_Some:
  "coerce a = Inr p \<Longrightarrow> coerce b = Inr f \<Longrightarrow> coerce c = Inr s \<Longrightarrow> read3 a b c = Some (p, f, s)"
  by (simp add: read3_def)

lemma unwrap_field_value: "unwrap v = field_value v"
  by (cases v) (auto simp: dict_has_def dict_get_none_def dict_get_def split: option.splits)

lemma coerce_field:
  "coerce v = (if truthy (field_value v) then py_int (field_value v) else Inr 0)"
  by (simp add: coerce_def py_or_def unwrap_field_value)

lemma coerce_Inl_iff: "isl (coerce v) = unreadable v"
  by (simp add: coerce_field unreadable_def)

lemma coerce_falsy: "falsy_field v \<Longrightarrow> coerce v = Inr 0"
  by (simp add: coerce_field falsy_field_def)

lemma coerce_sign: "coerce v = Inr n \<Longrightarrow> 0 \<le> n \<or> py_int (field_value v) = Inr n"
  by (simp add: coerce_field split: if_splits)

lemma read3_None_iff: "read3 a b c = None \<longleftrightarrow> unreadable a \<or> unreadable b \<or> unreadable c"
  using coerce_Inl_iff [of a] coerce_Inl_iff [of b] coerce_Inl_iff [of c]
  by (auto simp: read3_def split: sum.splits)

lemma read3_falsy:
  "read3 a b c = Some (p, f, s) \<Longrightarrow>
     (falsy_field a \<longrightarrow> p = 0) \<and> (falsy_field b \<longrightarrow> f = 0) \<and> (falsy_field c \<longrightarrow> s = 0)"
  by (auto simp: read3_def split: sum.splits dest: coerce_falsy)

text \<open>
  C4. When the first mapping of the traversal with the keys of any pattern has the keys
  \<open>passedTests\<close> and \<open>failedTests\<close>, and these and \<open>skippedTests\<close> (0 when the key
  is absent) hold integers, given as they are or wrapped as \<open>{"_value": N}\<close>, then
  normalization returns these three integers.
\<close>

theorem summary_pattern_reads_fields:
  assumes "deep_iter doc = pre @ JDict node # post"
    and "\<forall>kvs. JDict kvs \<in> set pre \<longrightarrow> \<not> matches_pattern kvs"
    and "map_of node ''passedTests'' = Some vp" and "wrapped_int vp = Some p"
    and "map_of node ''failedTests'' = Some vf" and "wrapped_int vf = Some f"
    and "(map_of node ''skippedTests'' = None \<and> s = 0)
         \<or> (\<exists>vs. map_of node ''skippedTests'' = Some vs \<and> wrapped_int vs = Some s)"
  shows "extract_counts doc = (p, f, s)"
proof -
  have s0: "coerce (dict_get node ''skippedTests'' (JInt 0)) = Inr s"
  proof (cases "map_of node ''skippedTests''")
    case None
    with assms(7) show ?thesis by (simp add: dict_get_def coerce_def py_or_def)
  next
    case (Some vs)
    with assms(7) show ?thesis by (simp add: dict_get_def wrapped_int_coerce)
  qed
  have "pattern_summary node = Some (p, f, s)"
    using assms(3-6) s0
    by (simp add: pattern_summary_def dict_has_def dict_get_def wrapped_int_coerce read3_Some)
  then have "node_counts node = Some (p, f, s)"
    by (simp add: node_counts_def)
  with assms(1,2) show ?thesis
    by (intro extract_counts_first [where pre = pre and node = node and post = post])
       (auto simp: node_counts_no_match)
qed

theorem summary_pattern_reads_fields_witness:
  "extract_counts (JDict [(''passedTests'', JInt 10), (''failedTests'', JInt 2),
                          (''skippedTests'', JInt 1)]) = (10, 2, 1)
   \<and> extract_counts (JList [JDict [(''name'', JStr ''run'')],
                             JDict [(''passedTests'', JDict [(''_value'', JInt 7)]),
                                    (''failedTests'', JInt 3)]]) = (7, 3, 0)"
proof -
  have a: "extract_counts (JDict [(''passedTests'', JInt 10), (''failedTests'', JInt 2),
                          (''skippedTests'', JInt 1)]) = (10, 2, 1)"
    by (rule summary_pattern_reads_fields [where pre = "[]" and post = "[]"
          and node = "[(''passedTests'', JInt 10), (''failedTests'', JInt 2),
                       (''skippedTests'', JInt 1)]"
          and vp = "JInt 10" and vf = "JInt 2"]) simp_all
  have b: "extract_counts (JList [JDict [(''name'', JStr ''run'')],
                             JDict [(''passedTests'', JDict [(''_value'', JInt 7)]),
                                    (''failedTests'', JInt 3)]]) = (7, 3, 0)"
    by (rule summary_pattern_reads_fields [where pre = "[JDict [(''name'', JStr ''run'')]]"
          and node = "[(''passedTests'', JDict [(''_value'', JInt 7)]), (''failedTests'', JInt 3)]"
          and post = "[JDict [(''_value'', JInt 7)]]"
          and vp = "JDict [(''_value'', JInt 7)]" and vf = "JInt 3"])
       (simp_all add: matches_pattern_def dict_has_def)
  from a b show ?thesis by simp
qed

text \<open>
  C3. A mapping with \<open>totalTestCount\<close> and one of \<open>failedTests\<close>, \<open>testsFailedCount\<close>,
  reached when no earlier mapping of the traversal returned counts and the first block did
  not return for it: with \<open>t\<close>, \<open>f\<close>, \<open>s\<close> what the coercion reads for the total, the
  failed count (\<open>failedTests\<close>, else \<open>testsFailedCount\<close>, else 0) and the skipped count
  (\<open>skippedTests\<close>, else \<open>testsSkippedCount\<close>, else 0), normalization returns
  \<open>(max (t - f - s) 0, f, s)\<close>; passed is never negative.
\<close>

theorem total_pattern_clamps:
  assumes "deep_iter doc = pre @ JDict node # post"
    and "\<forall>kvs. JDict kvs \<in> set pre \<longrightarrow> node_counts kvs = None"
    and "pattern_summary node = None"
    and "dict_has node ''totalTestCount''"
    and "dict_has node ''failedTests'' \<or> dict_has node ''testsFailedCount''"
    and "coerce (dict_get node ''totalTestCount'' (JInt 0)) = Inr t"
    and "coerce (dict_get node ''failedTests'' (dict_get node ''testsFailedCount'' (JInt 0))) = Inr f"
    and "coerce (dict_get node ''skippedTests'' (dict_get node ''testsSkippedCount'' (JInt 0))) = Inr s"
  shows "extract_counts doc = (max (t - f - s) 0, f, s) \<and> 0 \<le> fst (extract_counts doc)"
proof -
  have "pattern_total node = Some (max (t - f - s) 0, f, s)"
    using assms(4-8) by (simp add: pattern_total_def)
  with assms(3) have "node_counts node = Some (max (t - f - s) 0, f, s)"
    by (simp add: node_counts_def)
  with assms(1,2) have "extract_counts doc = (max (t - f - s) 0, f, s)"
    by (intro extract_counts_first [where pre = pre and node = node and post = post]) auto
  then show ?thesis by simp
qed

theorem total_pattern_clamps_witness:
  "extract_counts (JDict [(''totalTestCount'', JInt 100), (''failedTests'', JInt 5)]) = (95, 5, 0)
   \<and> extract_counts (JDict [(''totalTestCount'', JInt 3), (''testsFailedCount'', JInt 5),
                            (''skippedTests'', JInt 1)]) = (0, 5, 1)"
proof -
  have a: "extract_counts (JDict [(''totalTestCount'', JInt 100), (''failedTests'', JInt 5)])
      = (max (100 - 5 - 0) 0, 5, 0)"
    using total_pattern_clamps [where pre = "[]" and post = "[]" and t = 100 and f = 5 and s = 0
        and doc = "JDict [(''totalTestCount'', JInt 100), (''failedTests'', JInt 5)]"
        and node = "[(''totalTestCount'', JInt 100), (''failedTests'', JInt 5)]"]
    by (simp add: pattern_summary_def dict_has_def dict_get_def coerce_def py_or_def)
  have b: "extract_counts (JDict [(''totalTestCount'', JInt 3), (''testsFailedCount'', JInt 5),
                            (''skippedTests'', JInt 1)]) = (max (3 - 5 - 1) 0, 5, 1)"
    using total_pattern_clamps [where pre = "[]" and post = "[]" and t = 3 and f = 5 and s = 1
        and doc = "JDict [(''totalTestCount'', JInt 3), (''testsFailedCount'', JInt 5),
                            (''skippedTests'', JInt 1)]"
        and node = "[(''totalTestCount'', JInt 3), (''testsFailedCount'', JInt 5),
                            (''skippedTests'', JInt 1)]"]
    by (simp add: pattern_summary_def dict_has_def dict_get_def coerce_def py_or_def)
  from a b show ?thesis by simp
qed

subsection \<open>False and unreadable fields\<close>

lemma read3_block:
  "(read3 a b c = None \<longleftrightarrow> unreadable a \<or> unreadable b \<or> unreadable c)
   \<and> (\<forall>p f s. read3 a b c = Some (p, f, s) \<longrightarrow>
         (falsy_field a \<longrightarrow> p = 0) \<and> (falsy_field b \<longrightarrow> f = 0) \<and> (falsy_field c \<longrightarrow> s = 0))"
  using read3_None_iff [of a b c] read3_falsy [of a b c] by blast

lemma pattern_total_block:
  assumes "map_of node ''totalTestCount'' = Some ut"
    and "(case map_of node ''failedTests'' of Some v \<Rightarrow> Some v
          | None \<Rightarrow> map_of node ''testsFailedCount'') = Some uf"
    and "us = (case map_of node ''skippedTests'' of Some v \<Rightarrow> v
               | None \<Rightarrow> (case map_of node ''testsSkippedCount'' of Some v \<Rightarrow> v
                           | None \<Rightarrow> JInt 0))"
  shows "(pattern_total node = None \<longleftrightarrow> unreadable ut \<or> unreadable uf \<or> unreadable us)
     \<and> (\<forall>p f s. pattern_total node = Some (p, f, s) \<longrightarrow>
           (falsy_field ut \<longrightarrow> p = max (- f - s) 0)
           \<and> (falsy_field uf \<longrightarrow> f = 0) \<and> (falsy_field us \<longrightarrow> s = 0))"
proof -
  have k: "dict_has node ''totalTestCount''"
    "dict_has node ''failedTests'' \<or> dict_has node ''testsFailedCount''"
    using assms(1,2) by (auto simp: dict_has_def split: option.splits)
  have g: "dict_get node ''totalTestCount'' (JInt 0) = ut"
    "dict_get node ''failedTests'' (dict_get node ''testsFailedCount'' (JInt 0)) = uf"
    "dict_get node ''skippedTests'' (dict_get node ''testsSkippedCount'' (JInt 0)) = us"
    using assms by (auto simp: dict_get_def split: option.splits)
  show ?thesis
    using coerce_Inl_iff [of ut] coerce_Inl_iff [of uf] coerce_Inl_iff [of us]
      coerce_falsy [of ut] coerce_falsy [of uf] coerce_falsy [of us] k
    unfolding pattern_total_def g
    by (auto split: sum.splits)
qed

text \<open>
  C10. In each of the five blocks whose keys a mapping has, a field that is false as a
  Python value, as it stands or inside its wrapper \<open>{"_value": x}\<close>, counts as 0 and does
  not make the block give up: the block is skipped exactly when one of its three fields is
  true as a Python value and \<open>int()\<close> raises on it. The first part is about the four
  blocks that return their three fields, the second about the block that subtracts from
  \<open>totalTestCount\<close>, where a false total leaves \<open>max (- failed - skipped) 0\<close> as passed.
\<close>

theorem falsy_field_counts_as_zero:
  "((blk, kp, kf, ks) \<in> {(pattern_summary, ''passedTests'', ''failedTests'', ''skippedTests''),
                           (pattern_a, ''passed'', ''failed'', ''skipped''),
                           (pattern_b, ''testsPassedCount'', ''testsFailedCount'',
                              ''testsSkippedCount''),
                           (pattern_count, ''passedCount'', ''failedCount'', ''skippedCount'')}
      \<and> map_of node kp = Some vp \<and> map_of node kf = Some vf
      \<and> vs = (case map_of node ks of Some v \<Rightarrow> v | None \<Rightarrow> JInt 0)
    \<longrightarrow> (blk node = None \<longleftrightarrow> unreadable vp \<or> unreadable vf \<or> unreadable vs)
        \<and> (\<forall>p f s. blk node = Some (p, f, s) \<longrightarrow>
              (falsy_field vp \<longrightarrow> p = 0) \<and> (falsy_field vf \<longrightarrow> f = 0)
              \<and> (falsy_field vs \<longrightarrow> s = 0)))
   \<and> (map_of node ''totalTestCount'' = Some ut
      \<and> (case map_of node ''failedTests'' of Some v \<Rightarrow> Some v
          | None \<Rightarrow> map_of node ''testsFailedCount'') = Some uf
      \<and> us = (case map_of node ''skippedTests'' of Some v \<Rightarrow> v
               | None \<Rightarrow> (case map_of node ''testsSkippedCount'' of Some v \<Rightarrow> v
                           | None \<Rightarrow> JInt 0))
    \<longrightarrow> (pattern_total node = None \<longleftrightarrow> unreadable ut \<or> unreadable uf \<or> unreadable us)
        \<and> (\<forall>p f s. pattern_total node = Some (p, f, s) \<longrightarrow>
              (falsy_field ut \<longrightarrow> p = max (- f - s) 0)
              \<and> (falsy_field uf \<longrightarrow> f = 0) \<and> (falsy_field us \<longrightarrow> s = 0)))"
proof (rule conjI; rule impI)
  assume a: "(blk, kp, kf, ks) \<in> {(pattern_summary, ''passedTests'', ''failedTests'', ''skippedTests''),
                           (pattern_a, ''passed'', ''failed'', ''skipped''),
                           (pattern_b, ''testsPassedCount'', ''testsFailedCount'',
                              ''testsSkippedCount''),
                           (pattern_count, ''passedCount'', ''failedCount'', ''skippedCount'')}
      \<and> map_of node kp = Some vp \<and> map_of node kf = Some vf
      \<and> vs = (case map_of node ks of Some v \<Rightarrow> v | None \<Rightarrow> JInt 0)"
  then have g: "dict_get node kp (JInt 0) = vp" "dict_get node kf (JInt 0) = vf"
    "dict_get node ks (JInt 0) = vs" "dict_has node kp" "dict_has node kf"
    by (auto simp: dict_get_def dict_has_def)
  from a have "blk node = read3 (dict_get node kp (JInt 0)) (dict_get node kf (JInt 0))
      (dict_get node ks (JInt 0))"
    using g(4,5)
    by (auto simp: pattern_summary_def pattern_a_def pattern_b_def pattern_count_def)
  then have b: "blk node = read3 vp vf vs" by (simp only: g)
  show "(blk node = None \<longleftrightarrow> unreadable vp \<or> unreadable vf \<or> unreadable vs)
        \<and> (\<forall>p f s. blk node = Some (p, f, s) \<longrightarrow>
              (falsy_field vp \<longrightarrow> p = 0) \<and> (falsy_field vf \<longrightarrow> f = 0)
              \<and> (falsy_field vs \<longrightarrow> s = 0))"
    unfolding b by (rule read3_block)
next
  assume "map_of node ''totalTestCount'' = Some ut
      \<and> (case map_of node ''failedTests'' of Some v \<Rightarrow> Some v
          | None \<Rightarrow> map_of node ''testsFailedCount'') = Some uf
      \<and> us = (case map_of node ''skippedTests'' of Some v \<Rightarrow> v
               | None \<Rightarrow> (case map_of node ''testsSkippedCount'' of Some v \<Rightarrow> v
                           | None \<Rightarrow> JInt 0))"
  then show "(pattern_total node = None \<longleftrightarrow> unreadable ut \<or> unreadable uf \<or> unreadable us)
        \<and> (\<forall>p f s. pattern_total node = Some (p, f, s) \<longrightarrow>
              (falsy_field ut \<longrightarrow> p = max (- f - s) 0)
              \<and> (falsy_field uf \<longrightarrow> f = 0) \<and> (falsy_field us \<longrightarrow> s = 0))"
    using pattern_total_block by blast
qed

theorem falsy_field_counts_as_zero_witness:
  "extract_counts (JDict [(''passedTests'', JNull), (''failedTests'', JInt 2)]) = (0, 2, 0)
   \<and> extract_counts (JDict [(''passed'', JDict [(''_value'', JNull)]),
                            (''failed'', JDict [(''_value'', JStr '''')]),
                            (''skipped'', JBool False)]) = (0, 0, 0)
   \<and> extract_counts (JDict [(''totalTestCount'', JDict [(''_value'', JInt 9)]),
                            (''testsFailedCount'', JNull)]) = (9, 0, 0)
   \<and> pattern_summary [(''passedTests'', JStr ''abc''), (''failedTests'', JInt 2)] = None
   \<and> pattern_count [(''passedCount'', JInt 1),
                      (''failedCount'', JDict [(''value'', JInt 2)])] = None"
proof -
  let ?a = "[(''passedTests'', JNull), (''failedTests'', JInt 2)]"
  let ?b = "[(''passed'', JDict [(''_value'', JNull)]),
             (''failed'', JDict [(''_value'', JStr '''')]), (''skipped'', JBool False)]"
  let ?c = "[(''totalTestCount'', JDict [(''_value'', JInt 9)]), (''testsFailedCount'', JNull)]"
  let ?d = "[(''passedTests'', JStr ''abc''), (''failedTests'', JInt 2)]"
  let ?e = "[(''passedCount'', JInt 1), (''failedCount'', JDict [(''value'', JInt 2)])]"
  have a: "pattern_summary ?a \<noteq> None
      \<and> (\<forall>p f s. pattern_summary ?a = Some (p, f, s) \<longrightarrow> p = 0 \<and> s = 0)"
    using falsy_field_counts_as_zero [of pattern_summary "''passedTests''" "''failedTests''"
        "''skippedTests''" ?a JNull "JInt 2" "JInt 0"]
    by (simp add: unreadable_def falsy_field_def)
  have b: "pattern_a ?b \<noteq> None
      \<and> (\<forall>p f s. pattern_a ?b = Some (p, f, s) \<longrightarrow> p = 0 \<and> f = 0 \<and> s = 0)"
    using falsy_field_counts_as_zero [of pattern_a "''passed''" "''failed''" "''skipped''" ?b
        "JDict [(''_value'', JNull)]" "JDict [(''_value'', JStr '''')]" "JBool False"]
    by (simp add: unreadable_def falsy_field_def)
  have c: "pattern_total ?c \<noteq> None
      \<and> (\<forall>p f s. pattern_total ?c = Some (p, f, s) \<longrightarrow> f = 0 \<and> s = 0)"
    using falsy_field_counts_as_zero [of _ _ _ _ ?c _ _ _ "JDict [(''_value'', JInt 9)]" JNull
        "JInt 0"]
    by (simp add: unreadable_def falsy_field_def)
  have d: "pattern_summary ?d = None"
    using falsy_field_counts_as_zero [of pattern_summary "''passedTests''" "''failedTests''"
        "''skippedTests''" ?d "JStr ''abc''" "JInt 2" "JInt 0"]
    by (simp add: unreadable_def py_int_str_def int_space_def is_digit_def)
  have e: "pattern_count ?e = None"
    using falsy_field_counts_as_zero [of pattern_count "''passedCount''" "''failedCount''"
        "''skippedCount''" ?e "JInt 1" "JDict [(''value'', JInt 2)]" "JInt 0"]
    by (simp add: unreadable_def)
  have a': "extract_counts (JDict ?a) = (0, 2, 0)"
    by (simp add: extract_counts_def node_counts_def pattern_summary_def dict_has_def
        dict_get_def read3_def coerce_def py_or_def)
  have b': "extract_counts (JDict ?b) = (0, 0, 0)"
    using b by (auto simp: extract_counts_def node_counts_def pattern_summary_def
        pattern_total_def dict_has_def split: option.splits)
  have c': "extract_counts (JDict ?c) = (9, 0, 0)"
    by (simp add: extract_counts_def node_counts_def pattern_summary_def pattern_total_def
        dict_has_def dict_get_def dict_get_none_def coerce_def py_or_def)
  from a a' b' c' d e show ?thesis by simp
qed

subsection \<open>Signs\<close>

lemma field_reads_key:
  "k \<in> set count_keys \<Longrightarrow> map_of node k = Some v \<Longrightarrow> py_int (field_value v) = Inr x
     \<Longrightarrow> field_reads node x"
  by (auto simp: field_reads_def list_ex_iff intro!: bexI [of _ k])

lemma coerce_get_sign:
  assumes "coerce (dict_get node k (JInt 0)) = Inr n" and "k \<in> set count_keys"
  shows "0 \<le> n \<or> field_reads node n"
proof (cases "map_of node k")
  case None
  with assms(1) show ?thesis by (simp add: dict_get_def coerce_field)
next
  case (Some v)
  with assms(1) have "coerce v = Inr n" by (simp add: dict_get_def)
  from coerce_sign [OF this] Some assms(2) show ?thesis by (auto intro: field_reads_key)
qed

lemma coerce_get2_sign:
  assumes "coerce (dict_get node k (dict_get node k' (JInt 0))) = Inr n"
    and "k \<in> set count_keys" and "k' \<in> set count_keys"
  shows "0 \<le> n \<or> field_reads node n"
proof (cases "map_of node k")
  case None
  with assms(1) have "coerce (dict_get node k' (JInt 0)) = Inr n" by (simp add: dict_get_def)
  from coerce_get_sign [OF this assms(3)] show ?thesis .
next
  case (Some v)
  with assms(1) have "coerce v = Inr n" by (simp add: dict_get_def)
  from coerce_sign [OF this] Some assms(2) show ?thesis by (auto intro: field_reads_key)
qed

lemma read3_sign:
  assumes "read3 (dict_get node a (JInt 0)) (dict_get node b (JInt 0)) (dict_get node c (JInt 0))
             = Some (p, f, s)"
    and "a \<in> set count_keys" and "b \<in> set count_keys" and "c \<in> set count_keys"
  shows "(0 \<le> p \<or> field_reads node p) \<and> (0 \<le> f \<or> field_reads node f)
         \<and> (0 \<le> s \<or> field_reads node s)"
proof -
  from assms(1) have "coerce (dict_get node a (JInt 0)) = Inr p"
    "coerce (dict_get node b (JInt 0)) = Inr f" "coerce (dict_get node c (JInt 0)) = Inr s"
    by (auto simp: read3_def split: sum.splits)
  from coerce_get_sign [OF this(1) assms(2)] coerce_get_sign [OF this(2) assms(3)]
    coerce_get_sign [OF this(3) assms(4)] show ?thesis by simp
qed

lemma pattern_total_sign:
  assumes "pattern_total node = Some (p, f, s)"
  shows "0 \<le> p \<and> (0 \<le> f \<or> field_reads node f) \<and> (0 \<le> s \<or> field_reads node s)"
proof -
  from assms obtain t where
    "coerce (dict_get node ''failedTests'' (dict_get node ''testsFailedCount'' (JInt 0))) = Inr f"
    "coerce (dict_get node ''skippedTests'' (dict_get node ''testsSkippedCount'' (JInt 0))) = Inr s"
    "p = max (t - f - s) 0"
    by (auto simp: pattern_total_def split: if_splits sum.splits)
  from coerce_get2_sign [OF this(1)] coerce_get2_sign [OF this(2)] this(3)
  show ?thesis by (simp add: count_keys_def)
qed

lemma node_counts_sign:
  assumes "node_counts node = Some (p, f, s)"
  shows "(0 \<le> p \<or> field_reads node p) \<and> (0 \<le> f \<or> field_reads node f)
         \<and> (0 \<le> s \<or> field_reads node s)"
proof -
  from assms consider
      "pattern_summary node = Some (p, f, s)" | "pattern_total node = Some (p, f, s)"
    | "pattern_a node = Some (p, f, s)" | "pattern_b node = Some (p, f, s)"
    | "pattern_count node = Some (p, f, s)"
    by (auto simp: node_counts_def split: option.splits)
  then show ?thesis
  proof cases
    case 1
    then have "read3 (dict_get node ''passedTests'' (JInt 0)) (dict_get node ''failedTests'' (JInt 0))
        (dict_get node ''skippedTests'' (JInt 0)) = Some (p, f, s)"
      by (simp add: pattern_summary_def split: if_splits)
    then show ?thesis by (rule read3_sign) (simp_all add: count_keys_def)
  next
    case 2
    from pattern_total_sign [OF this] show ?thesis by simp
  next
    case 3
    then have "read3 (dict_get node ''passed'' (JInt 0)) (dict_get node ''failed'' (JInt 0))
        (dict_get node ''skipped'' (JInt 0)) = Some (p, f, s)"
      by (simp add: pattern_a_def split: if_splits)
    then show ?thesis by (rule read3_sign) (simp_all add: count_keys_def)
  next
    case 4
    then have "read3 (dict_get node ''testsPassedCount'' (JInt 0))
        (dict_get node ''testsFailedCount'' (JInt 0))
        (dict_get node ''testsSkippedCount'' (JInt 0)) = Some (p, f, s)"
      by (simp add: pattern_b_def split: if_splits)
    then show ?thesis by (rule read3_sign) (simp_all add: count_keys_def)
  next
    case 5
    then have "read3 (dict_get node ''passedCount'' (JInt 0)) (dict_get node ''failedCount'' (JInt 0))
        (dict_get node ''skippedCount'' (JInt 0)) = Some (p, f, s)"
      by (simp add: pattern_count_def split: if_splits)
    then show ?thesis by (rule read3_sign) (simp_all add: count_keys_def)
  qed
qed

lemma from_count_field_node:
  "JDict node \<in> set (deep_iter doc) \<Longrightarrow> field_reads node x \<Longrightarrow> from_count_field doc x"
  by (auto simp: from_count_field_def list_ex_iff intro!: bexI [of _ "JDict node"])

text \<open>
  C2, as the code has it. The three counts are integers, and each of them is non-negative
  or is the integer that \<open>int()\<close> reads from a count field of a mapping of the document:
  the value under one of the keys of \<open>count_keys\<close>, taken out of its wrapper
  \<open>{"_value": x}\<close> when it has one.
\<close>

theorem counts_nonneg:
  "(0 \<le> fst (extract_counts doc) \<or> from_count_field doc (fst (extract_counts doc)))
   \<and> (0 \<le> fst (snd (extract_counts doc))
       \<or> from_count_field doc (fst (snd (extract_counts doc))))
   \<and> (0 \<le> snd (snd (extract_counts doc))
       \<or> from_count_field doc (snd (snd (extract_counts doc))))"
proof (cases "scan_nodes (deep_iter doc)")
  case None
  then show ?thesis by (simp add: extract_counts_def)
next
  case (Some r)
  obtain p f s where r: "r = (p, f, s)" by (cases r) auto
  from scan_nodes_Some [OF Some] obtain node
    where k: "JDict node \<in> set (deep_iter doc)" "node_counts node = Some (p, f, s)"
    using r by auto
  from node_counts_sign [OF k(2)] from_count_field_node [OF k(1)]
  have "(0 \<le> p \<or> from_count_field doc p) \<and> (0 \<le> f \<or> from_count_field doc f)
      \<and> (0 \<le> s \<or> from_count_field doc s)" by blast
  with Some r show ?thesis by (simp add: extract_counts_def)
qed

theorem counts_nonneg_witness:
  "extract_counts (JDict [(''offset'', JInt (- 1)),
      (''summary'', JDict [(''passed'', JDict [(''_value'', JStr ''-12'')]),
                           (''failed'', JFloat (Finite (- 3) (- 1)))])]) = (- 12, - 1, 0)
   \<and> from_count_field (JDict [(''offset'', JInt (- 1)),
      (''summary'', JDict [(''passed'', JDict [(''_value'', JStr ''-12'')]),
                           (''failed'', JFloat (Finite (- 3) (- 1)))])]) (- 12)
   \<and> from_count_field (JDict [(''offset'', JInt (- 1)),
      (''summary'', JDict [(''passed'', JDict [(''_value'', JStr ''-12'')]),
                           (''failed'', JFloat (Finite (- 3) (- 1)))])]) (- 1)
   \<and> extract_counts (JDict [(''offset'', JInt (- 1)), (''passedTests'', JFloat (Finite (- 1) (- 1))),
                            (''failedTests'', JInt 2)]) = (0, 2, 0)"
proof -
  let ?doc = "JDict [(''offset'', JInt (- 1)),
      (''summary'', JDict [(''passed'', JDict [(''_value'', JStr ''-12'')]),
                           (''failed'', JFloat (Finite (- 3) (- 1)))])]"
  have s: "py_int_str ''-12'' = Inr (- 12)"
    by (simp add: py_int_str_def int_space_def is_digit_def digits_nat_def digit_val_def)
  have e: "extract_counts ?doc = (- 12, - 1, 0)"
    by (simp add: extract_counts_def node_counts_def pattern_summary_def pattern_total_def
        pattern_a_def pattern_b_def pattern_count_def dict_has_def dict_get_def dict_get_none_def
        read3_def coerce_def py_or_def s)
  have z: "extract_counts (JDict [(''offset'', JInt (- 1)),
      (''passedTests'', JFloat (Finite (- 1) (- 1))), (''failedTests'', JInt 2)]) = (0, 2, 0)"
    by (simp add: extract_counts_def node_counts_def pattern_summary_def
        dict_has_def dict_get_def read3_def coerce_def py_or_def)
  from counts_nonneg [of ?doc] e z show ?thesis by simp
qed

text \<open>
  The claim C2 as the specification states it fails: the summary
  \<open>{"passedTests": -5, "failedTests": 2}\<close> normalizes to (-5, 2, 0).
\<close>

theorem negative_count_is_returned:
  "extract_counts (JDict [(''passedTests'', JInt (- 5)), (''failedTests'', JInt 2)]) = (- 5, 2, 0)
   \<and> \<not> 0 \<le> fst (extract_counts
          (JDict [(''passedTests'', JInt (- 5)), (''failedTests'', JInt 2)]))"
  by (simp add: extract_counts_def node_counts_def pattern_summary_def dict_has_def dict_get_def
      read3_def coerce_def py_or_def)

section \<open>Properties of the report\<close>

subsection \<open>Decimal numerals\<close>

lemma digit_char:
  "d < 10 \<Longrightarrow> is_digit (''0123456789'' ! d) \<and> digit_val (''0123456789'' ! d) = d"
proof -
  assume "d < 10"
  then have "d \<in> {0, 1, 2, 3, 4, 5, 6, 7, 8, 9}" by auto
  then show ?thesis by (auto simp: is_digit_def digit_val_def)
qed

lemma digits_nat_snoc: "digits_nat (ds @ [c]) = 10 * digits_nat ds + digit_val c"
  by (simp add: digits_nat_def)

lemma show_nat_digits: "show_nat n \<noteq> [] \<and> (\<forall>c \<in> set (show_nat n). is_digit c)"
proof (induction n rule: show_nat.induct)
  case (1 n)
  show ?case
  proof (cases "n < 10")
    case True
    then show ?thesis by (subst (1 2) show_nat.simps) (simp add: digit_char)
  next
    case False
    with 1 show ?thesis by (subst (1 2) show_nat.simps) (simp add: digit_char)
  qed
qed

lemma digits_nat_show_nat: "digits_nat (show_nat n) = n"
proof (induction n rule: show_nat.induct)
  case (1 n)
  show ?case
  proof (cases "n < 10")
    case True
    then show ?thesis by (subst show_nat.simps) (simp add: digits_nat_def digit_char)
  next
    case False
    with 1 show ?thesis by (subst show_nat.simps) (simp add: digits_nat_snoc digit_char)
  qed
qed

lemma show_nat_no_minus: "CHR ''-'' \<notin> set (show_nat n)"
proof
  assume "CHR ''-'' \<in> set (show_nat n)"
  with show_nat_digits [of n] have "is_digit CHR ''-''" by blast
  then show False by (simp add: is_digit_def)
qed

lemma takeWhile_digits: 
  assumes "\<forall>c \<in> set ds. is_digit c" and "rest = [] \<or> \<not> is_digit (hd rest)"
  shows "takeWhile is_digit (ds @ rest) = ds \<and> dropWhile is_digit (ds @ rest) = rest"
proof (cases rest)
  case Nil
  with assms show ?thesis by simp
next
  case (Cons c cs)
  with assms show ?thesis by (simp add: takeWhile_append2 dropWhile_append2)
qed

lemma read_int_show_int:
  assumes "rest = [] \<or> \<not> is_digit (hd rest)"
  shows "read_int (show_int n @ rest) = Some (n, rest)"
proof (cases "n < 0")
  case True
  from takeWhile_digits [OF _ assms, of "show_nat (nat (- n))"] show_nat_digits [of "nat (- n)"]
  have "takeWhile is_digit (show_nat (nat (- n)) @ rest) = show_nat (nat (- n))"
    "dropWhile is_digit (show_nat (nat (- n)) @ rest) = rest" by auto
  with True show ?thesis
    using show_nat_digits [of "nat (- n)"]
    by (simp add: read_int_def show_int_def digits_nat_show_nat)
next
  case False
  from takeWhile_digits [OF _ assms, of "show_nat (nat n)"] show_nat_digits [of "nat n"]
  have t: "takeWhile is_digit (show_nat (nat n) @ rest) = show_nat (nat n)"
    "dropWhile is_digit (show_nat (nat n) @ rest) = rest" by auto
  have h: "hd (show_nat (nat n) @ rest) \<noteq> CHR ''-''"
    using show_nat_digits [of "nat n"] show_nat_no_minus [of "nat n"]
    by (cases "show_nat (nat n)") auto
  from False t h show ?thesis
    using show_nat_digits [of "nat n"]
    by (simp add: read_int_def show_int_def digits_nat_show_nat Let_def)
qed

lemma read_int_rev_show_int:
  assumes "rest = [] \<or> (\<not> is_digit (hd rest) \<and> hd rest \<noteq> CHR ''-'')"
  shows "read_int_rev (rev (show_int n) @ rest) = Some (n, rest)"
proof (cases "n < 0")
  case True
  let ?ds = "rev (show_nat (nat (- n)))"
  have d: "\<forall>c \<in> set ?ds. is_digit c" "?ds \<noteq> []"
    using show_nat_digits [of "nat (- n)"] by auto
  have m: "\<not> is_digit CHR ''-''" by (simp add: is_digit_def)
  from takeWhile_digits [OF d(1), of "CHR ''-'' # rest"] m
  have "takeWhile is_digit (?ds @ CHR ''-'' # rest) = ?ds"
    "dropWhile is_digit (?ds @ CHR ''-'' # rest) = CHR ''-'' # rest" by auto
  with True d show ?thesis
    by (simp add: read_int_rev_def show_int_def digits_nat_show_nat)
next
  case False
  let ?ds = "rev (show_nat (nat n))"
  have d: "\<forall>c \<in> set ?ds. is_digit c" "?ds \<noteq> []"
    using show_nat_digits [of "nat n"] by auto
  from takeWhile_digits [OF d(1), of rest] assms
  have "takeWhile is_digit (?ds @ rest) = ?ds" "dropWhile is_digit (?ds @ rest) = rest" by auto
  with False d assms show ?thesis
    by (auto simp: read_int_rev_def show_int_def digits_nat_show_nat)
qed

lemma expect_append: "expect lit (lit @ rest) = Some rest"
  by (simp add: expect_def)

subsection \<open>Reading literals\<close>

lemma expect_same: "expect (a @ b) (a @ c) = expect b c"
  by (simp add: expect_def)

lemma expect_all: "expect a (a @ c) = Some c"
  by (simp add: expect_def)

lemma kpi_passed_start: "kpi_passed @ x = [] \<or> \<not> is_digit (hd (kpi_passed @ x))"
  by (simp add: kpi_passed_def is_digit_def)

lemma kpi_failed_start: "kpi_failed @ x = [] \<or> \<not> is_digit (hd (kpi_failed @ x))"
  by (simp add: kpi_failed_def is_digit_def)

lemma kpi_skipped_start: "kpi_skipped @ x = [] \<or> \<not> is_digit (hd (kpi_skipped @ x))"
  by (simp add: kpi_skipped_def is_digit_def)

lemma kpi_close_start: "kpi_close @ x = [] \<or> \<not> is_digit (hd (kpi_close @ x))"
  by (simp add: kpi_close_def is_digit_def)

lemma script_open_end: "\<exists>t. script_open = t @ ''data: [''"
  by (rule exI [of _ "take 330 script_open"]) (simp add: script_open_def)

lemma comma_start:
  "rev '', '' @ x = [] \<or> (\<not> is_digit (hd (rev '', '' @ x)) \<and> hd (rev '', '' @ x) \<noteq> CHR ''-'')"
  by (simp add: is_digit_def)

lemma bracket_start:
  "rev ''data: ['' @ x = []
   \<or> (\<not> is_digit (hd (rev ''data: ['' @ x)) \<and> hd (rev ''data: ['' @ x) \<noteq> CHR ''-'')"
  by (simp add: is_digit_def)

lemma build_html_shape:
  assumes "build_html R passed failed skipped source_name title details sdir smap = Inr html"
  shows "\<exists>mid. html =
      (head_doctype @ title @ head_style @ title @ card_intro)
      @ show_int (passed + failed + skipped)
      @ kpi_passed @ show_int passed @ kpi_failed @ show_int failed
      @ kpi_skipped @ show_int skipped @ kpi_close
      @ source_name @ card_close @ mid
      @ script_open @ show_int passed @ '', '' @ show_int failed @ '', '' @ show_int skipped
      @ script_close"
  using assms by (auto simp: build_html_def Let_def split: sum.splits)

lemma reparse_kpis_shape:
  "reparse_kpis title
     ((head_doctype @ title @ head_style @ title @ card_intro)
      @ show_int t @ kpi_passed @ show_int p @ kpi_failed @ show_int f
      @ kpi_skipped @ show_int s @ kpi_close @ rest) = Some (p, f, s)"
  unfolding reparse_kpis_def
  by (simp only: expect_all option.case prod.case
      read_int_show_int [OF kpi_passed_start] read_int_show_int [OF kpi_failed_start]
      read_int_show_int [OF kpi_skipped_start] read_int_show_int [OF kpi_close_start])

lemma reparse_chart_shape:
  "reparse_chart (pre @ ''data: ['' @ show_int p @ '', '' @ show_int f @ '', '' @ show_int s
                  @ script_close) = Some (p, f, s)"
proof -
  have r: "rev (pre @ ''data: ['' @ show_int p @ '', '' @ show_int f @ '', '' @ show_int s
                @ script_close)
      = rev script_close @ rev (show_int s) @ rev '', '' @ rev (show_int f) @ rev '', ''
        @ rev (show_int p) @ rev ''data: ['' @ rev pre"
    by (simp only: rev_append append_assoc)
  show ?thesis
    unfolding reparse_chart_def r
    by (simp only: expect_all option.case prod.case
        read_int_rev_show_int [OF comma_start] read_int_rev_show_int [OF bracket_start])
qed

text \<open>
  C8. The counts put into a report are read back from it: the numerals of the Passed,
  Failed and Skipped boxes, and the data array of the chart script, are the three counts
  \<open>build_html\<close> was given, whatever the title, the source name and the details.
\<close>

theorem report_round_trip:
  assumes "build_html R passed failed skipped source_name title details sdir smap = Inr html"
  shows "reparse_kpis title html = Some (passed, failed, skipped)
         \<and> reparse_chart html = Some (passed, failed, skipped)"
proof -
  from build_html_shape [OF assms] obtain mid where h: "html =
      (head_doctype @ title @ head_style @ title @ card_intro)
      @ show_int (passed + failed + skipped)
      @ kpi_passed @ show_int passed @ kpi_failed @ show_int failed
      @ kpi_skipped @ show_int skipped @ kpi_close
      @ source_name @ card_close @ mid
      @ script_open @ show_int passed @ '', '' @ show_int failed @ '', '' @ show_int skipped
      @ script_close" by blast
  have k: "reparse_kpis title html = Some (passed, failed, skipped)"
    unfolding h by (rule reparse_kpis_shape)
  from script_open_end obtain t where t: "script_open = t @ ''data: [''" by blast
  have "html = ((head_doctype @ title @ head_style @ title @ card_intro)
      @ show_int (passed + failed + skipped)
      @ kpi_passed @ show_int passed @ kpi_failed @ show_int failed
      @ kpi_skipped @ show_int skipped @ kpi_close
      @ source_name @ card_close @ mid @ t)
      @ ''data: ['' @ show_int passed @ '', '' @ show_int failed @ '', '' @ show_int skipped
      @ script_close"
    unfolding h t by (simp only: append_assoc)
  then have c: "reparse_chart html = Some (passed, failed, skipped)"
    by (simp only: reparse_chart_shape)
  from k c show ?thesis by simp
qed

theorem report_round_trip_witness:
  "reparse_kpis ''Nightly''
     (projr (build_html (\<lambda>v. []) 10 2 1 ''App.xcresult'' ''Nightly'' None None None))
     = Some (10, 2, 1)
   \<and> reparse_chart
     (projr (build_html (\<lambda>v. []) 10 2 1 ''App.xcresult'' ''Nightly'' None None None))
     = Some (10, 2, 1)"
proof -
  have "build_html (\<lambda>v. []) 10 2 1 ''App.xcresult'' ''Nightly'' None None None
      = Inr (projr (build_html (\<lambda>v. []) 10 2 1 ''App.xcresult'' ''Nightly'' None None None))"
    by (simp add: build_html_def details_section_def Let_def)
  from report_round_trip [OF this] show ?thesis .
qed

section \<open>Properties of detail extraction\<close>

subsection \<open>Segments\<close>

lemma split_on_notin: "c \<notin> set s \<Longrightarrow> split_on c s = [s]"
  by (induction s) auto

lemma split_on_nonempty: "split_on c s \<noteq> []"
  by (induction s) (auto split: list.splits)

lemma split_on_last_sep:
  "c \<notin> set b \<Longrightarrow> split_on c (a @ c # b) = split_on c a @ [b]"
proof (induction a)
  case Nil
  then show ?case by (simp add: split_on_notin)
next
  case (Cons x a)
  then show ?case
    using split_on_nonempty [of c a] by (cases "split_on c a") auto
qed

lemma last_split_on: "last (split_on c s) = rev (takeWhile (\<lambda>x. x \<noteq> c) (rev s))"
proof (cases "c \<in> set s")
  case False
  then have t: "takeWhile (\<lambda>x. x \<noteq> c) (rev s) = rev s"
    by (intro takeWhile_eq_all_conv [THEN iffD2]) auto
  show ?thesis unfolding t using False by (simp add: split_on_notin)
next
  case True
  from split_list_last [OF this] obtain a b where s: "s = a @ c # b" "c \<notin> set b" by blast
  then have t: "takeWhile (\<lambda>x. x \<noteq> c) (rev b @ c # rev a) = rev b"
    by (subst takeWhile_append2) auto
  have "rev s = rev b @ c # rev a" using s by simp
  then show ?thesis using s by (simp add: split_on_last_sep t)
qed

lemma second_to_last_split_on:
  assumes "CHR ''/'' \<in> set s"
  shows "2 \<le> length (split_on CHR ''/'' s)
     \<and> split_on CHR ''/'' s ! (length (split_on CHR ''/'' s) - 2) = second_to_last s"
proof -
  from split_list_last [OF assms] obtain a b
    where s: "s = a @ CHR ''/'' # b" "CHR ''/'' \<notin> set b" by blast
  have p: "split_on CHR ''/'' s = split_on CHR ''/'' a @ [b]"
    using s by (simp add: split_on_last_sep)
  have n: "split_on CHR ''/'' a \<noteq> []" by (rule split_on_nonempty)
  then have l: "2 \<le> length (split_on CHR ''/'' s)"
    unfolding p by (cases "split_on CHR ''/'' a") auto
  have "split_on CHR ''/'' s ! (length (split_on CHR ''/'' s) - 2) = last (split_on CHR ''/'' a)"
    unfolding p using n by (simp add: nth_append last_conv_nth)
  also have "\<dots> = rev (takeWhile (\<lambda>x. x \<noteq> CHR ''/'') (rev a))" by (rule last_split_on)
  also have "\<dots> = second_to_last s"
  proof -
    have "dropWhile (\<lambda>x. x \<noteq> CHR ''/'') (rev b @ CHR ''/'' # rev a) = CHR ''/'' # rev a"
      using s(2) by (subst dropWhile_append2) auto
    then show ?thesis by (simp add: second_to_last_def s(1))
  qed
  finally show ?thesis using l by simp
qed

subsection \<open>One entry\<close>

lemma is_text_cases:
  "is_text (map_of entry k) \<Longrightarrow>
     dict_get_none entry k = JNull \<and> field_text entry k = []
     \<or> dict_get_none entry k = JStr (field_text entry k)"
  by (auto simp: is_text_def dict_get_none_def dict_get_def field_text_def
      split: option.splits json.splits)

lemma failure_detail_text:
  assumes "text_entry entry"
  shows "failure_detail R entry = Inr (expected_record entry)"
proof -
  from assms have t: "is_text (map_of entry ''testName'')"
    "is_text (map_of entry ''testIdentifierString'')"
    "is_text (map_of entry ''testIdentifierURL'')"
    "is_text (map_of entry ''targetName'')"
    "is_text (map_of entry ''failureText'')"
    by (simp_all add: text_entry_def)
  define n where "n = field_text entry ''testName''"
  define i where "i = field_text entry ''testIdentifierString''"
  define u where "u = field_text entry ''testIdentifierURL''"
  define g where "g = field_text entry ''targetName''"
  define x where "x = field_text entry ''failureText''"
  define name where "name = (if n \<noteq> [] then n else i)"
  define ident where "ident = (if i \<noteq> [] then i else u)"
  have a: "py_or (py_or (dict_get_none entry ''testName'')
      (dict_get_none entry ''testIdentifierString'')) (JStr '''') = JStr name"
    using is_text_cases [OF t(1)] is_text_cases [OF t(2)]
    by (auto simp: py_or_def name_def n_def i_def)
  have b: "py_or (py_or (dict_get_none entry ''testIdentifierString'')
      (dict_get_none entry ''testIdentifierURL'')) (JStr '''') = JStr ident"
    using is_text_cases [OF t(2)] is_text_cases [OF t(3)]
    by (auto simp: py_or_def ident_def i_def u_def)
  have c: "py_or (dict_get_none entry ''targetName'') (JStr '''') = JStr g"
    using is_text_cases [OF t(4)] by (auto simp: py_or_def g_def)
  have d: "py_or (dict_get_none entry ''failureText'') (JStr '''') = JStr x"
    using is_text_cases [OF t(5)] by (auto simp: py_or_def x_def)
  have e: "expected_record entry =
      (if name = [] then None
       else Some [(''name'', JStr name), (''status'', JStr ''Failed''),
                  (''suite'', JStr (if CHR ''/'' \<in> set ident \<and> second_to_last ident \<noteq> []
                                    then second_to_last ident else g)),
                  (''failure'', JStr (take 100 x)),
                  (''testIdentifierString'', JStr ident)])"
    by (simp add: expected_record_def Let_def name_def ident_def n_def i_def u_def g_def x_def)
  show ?thesis
  proof (cases "CHR ''/'' \<in> set ident")
    case True
    from second_to_last_split_on [OF True] True show ?thesis
      unfolding failure_detail_def a b c d e
      by (auto simp: Let_def py_or_def)
  next
    case False
    then show ?thesis
      unfolding failure_detail_def a b c d e
      by (auto simp: Let_def py_or_def)
  qed
qed

lemma collect_details_text:
  "(\<And>entry. JDict entry \<in> set failures \<Longrightarrow> text_entry entry)
     \<Longrightarrow> collect_details R failures = Inr (expected_records failures)"
  by (induction failures rule: expected_records.induct)
     (auto simp: failure_detail_text split: option.splits)

text \<open>
  C6, as the code has it. For a summary whose \<open>testFailures\<close> is a list, the entries that
  are mappings having strings (or nothing) in the fields read, the records returned are,
  in the order of the entries, one for each entry with a non-empty name (\<open>testName\<close>,
  else \<open>testIdentifierString\<close>): its suite is the second-to-last segment of the
  slash-delimited identifier (\<open>testIdentifierString\<close>, else \<open>testIdentifierURL\<close>), and
  the target name when the identifier has no slash or that segment is empty; its failure
  is the first 100 characters of \<open>failureText\<close>; its status is \<open>Failed\<close>. No record
  at all is returned as \<open>None\<close>.
\<close>

theorem detail_records:
  assumes "map_of data ''testFailures'' = Some (JList failures)"
    and "\<forall>entry. JDict entry \<in> set failures \<longrightarrow> text_entry entry"
  shows "extract_details_from_summary R (JDict data) =
     Inr (if expected_records failures = [] then None else Some (expected_records failures))"
  using assms by (auto simp: collect_details_text)

theorem detail_records_witness:
  "extract_details_from_summary (\<lambda>v. [])
     (JDict [(''testFailures'', JList [JDict [(''testName'', JStr ''testFoo''),
        (''testIdentifierString'', JStr ''SuiteA/testFoo''),
        (''failureText'', JStr ''expected true'')]])])
   = Inr (Some [[(''name'', JStr ''testFoo''), (''status'', JStr ''Failed''),
                 (''suite'', JStr ''SuiteA''), (''failure'', JStr ''expected true''),
                 (''testIdentifierString'', JStr ''SuiteA/testFoo'')]])
   \<and> extract_details_from_summary (\<lambda>v. [])
     (JDict [(''testFailures'', JList [JInt 3,
        JDict [(''testName'', JStr ''long''), (''testIdentifierURL'', JStr ''test://a/B/c''),
               (''targetName'', JStr ''App''),
               (''failureText'', JStr (replicate 120 CHR ''x''))],
        JDict [(''testName'', JNull), (''failureText'', JStr ''lost'')],
        JDict [(''testName'', JStr ''solo''), (''testIdentifierString'', JStr ''solo''),
               (''targetName'', JStr ''App'')]])])
   = Inr (Some [[(''name'', JStr ''long''), (''status'', JStr ''Failed''),
                 (''suite'', JStr ''B''), (''failure'', JStr (replicate 100 CHR ''x'')),
                 (''testIdentifierString'', JStr ''test://a/B/c'')],
                [(''name'', JStr ''solo''), (''status'', JStr ''Failed''),
                 (''suite'', JStr ''App''), (''failure'', JStr ''''),
                 (''testIdentifierString'', JStr ''solo'')]])"
proof -
  have a: "extract_details_from_summary (\<lambda>v. [])
     (JDict [(''testFailures'', JList [JDict [(''testName'', JStr ''testFoo''),
        (''testIdentifierString'', JStr ''SuiteA/testFoo''),
        (''failureText'', JStr ''expected true'')]])])
   = Inr (Some [[(''name'', JStr ''testFoo''), (''status'', JStr ''Failed''),
                 (''suite'', JStr ''SuiteA''), (''failure'', JStr ''expected true''),
                 (''testIdentifierString'', JStr ''SuiteA/testFoo'')]])"
    using detail_records [of "[(''testFailures'', JList [JDict [(''testName'', JStr ''testFoo''),
        (''testIdentifierString'', JStr ''SuiteA/testFoo''),
        (''failureText'', JStr ''expected true'')]])]"
        "[JDict [(''testName'', JStr ''testFoo''),
        (''testIdentifierString'', JStr ''SuiteA/testFoo''),
        (''failureText'', JStr ''expected true'')]]" "\<lambda>v. []"]
    by (simp add: text_entry_def is_text_def expected_record_def field_text_def Let_def
        second_to_last_def)
  have b: "extract_details_from_summary (\<lambda>v. [])
     (JDict [(''testFailures'', JList [JInt 3,
        JDict [(''testName'', JStr ''long''), (''testIdentifierURL'', JStr ''test://a/B/c''),
               (''targetName'', JStr ''App''),
               (''failureText'', JStr (replicate 120 CHR ''x''))],
        JDict [(''testName'', JNull), (''failureText'', JStr ''lost'')],
        JDict [(''testName'', JStr ''solo''), (''testIdentifierString'', JStr ''solo''),
               (''targetName'', JStr ''App'')]])])
   = Inr (Some [[(''name'', JStr ''long''), (''status'', JStr ''Failed''),
                 (''suite'', JStr ''B''), (''failure'', JStr (replicate 100 CHR ''x'')),
                 (''testIdentifierString'', JStr ''test://a/B/c'')],
                [(''name'', JStr ''solo''), (''status'', JStr ''Failed''),
                 (''suite'', JStr ''App''), (''failure'', JStr ''''),
                 (''testIdentifierString'', JStr ''solo'')]])"
    using detail_records [of "[(''testFailures'', JList [JInt 3,
        JDict [(''testName'', JStr ''long''), (''testIdentifierURL'', JStr ''test://a/B/c''),
               (''targetName'', JStr ''App''),
               (''failureText'', JStr (replicate 120 CHR ''x''))],
        JDict [(''testName'', JNull), (''failureText'', JStr ''lost'')],
        JDict [(''testName'', JStr ''solo''), (''testIdentifierString'', JStr ''solo''),
               (''targetName'', JStr ''App'')]])]"
        "[JInt 3,
        JDict [(''testName'', JStr ''long''), (''testIdentifierURL'', JStr ''test://a/B/c''),
               (''targetName'', JStr ''App''),
               (''failureText'', JStr (replicate 120 CHR ''x''))],
        JDict [(''testName'', JNull), (''failureText'', JStr ''lost'')],
        JDict [(''testName'', JStr ''solo''), (''testIdentifierString'', JStr ''solo''),
               (''targetName'', JStr ''App'')]]" "\<lambda>v. []"]
    by (simp add: text_entry_def is_text_def expected_record_def field_text_def Let_def
        second_to_last_def)
  from a b show ?thesis by simp
qed

text \<open>
  The claim C6 as the specification states it fails where the second-to-last segment is
  empty: the identifier \<open>/t\<close> has a slash and its second-to-last segment is the empty
  text, and the suite of the record is the target name \<open>App\<close>.
\<close>

theorem empty_segment_gives_target:
  "extract_details_from_summary (\<lambda>v. [])
     (JDict [(''testFailures'', JList [JDict [(''testName'', JStr ''t''),
        (''testIdentifierString'', JStr ''/t''), (''targetName'', JStr ''App'')]])])
   = Inr (Some [[(''name'', JStr ''t''), (''status'', JStr ''Failed''),
                 (''suite'', JStr ''App''), (''failure'', JStr ''''),
                 (''testIdentifierString'', JStr ''/t'')]])
   \<and> CHR ''/'' \<in> set ''/t''
   \<and> split_on CHR ''/'' ''/t'' = ['''', ''t'']
   \<and> second_to_last ''/t'' = ''''
   \<and> ''App'' \<noteq> second_to_last ''/t''"
  by (simp add: failure_detail_def py_or_def dict_get_none_def dict_get_def second_to_last_def
      Let_def)

section \<open>Properties of screenshot matching\<close>








section \<open>Properties of the rows of the report\<close>

lemma sublist_mid: "sublist xs ys \<Longrightarrow> sublist xs (a @ ys @ b)"
  using sublist_order.order.trans [of xs ys "a @ ys @ b"] by simp

lemma detail_row_start:
  assumes "detail_row R hf hs sdir smap item = Inr row"
  shows "\<exists>rest. row =
      row_open @ py_str R (dict_get item ''name'' (JStr '''')) @ cell_suite
      @ py_str R (dict_get item ''suite'' (JStr '''')) @ cell_status
      @ status_color (dict_get item ''status'' (JStr '''')) @ cell_status_style
      @ py_str R (dict_get item ''status'' (JStr '''')) @ cell_close
      @ (if hf then cell_failure @ py_str R (dict_get item ''failure'' (JStr '''')) @ cell_close
         else [])
      @ row_close @ rest"
  using assms by (auto simp: detail_row_def Let_def split: if_splits sum.splits)

lemma detail_rows_member:
  "detail_rows R hf hs sdir smap items = Inr rows \<Longrightarrow> item \<in> set items
     \<Longrightarrow> \<exists>row. detail_row R hf hs sdir smap item = Inr row \<and> sublist row rows"
proof (induction items arbitrary: rows)
  case Nil
  then show ?case by simp
next
  case (Cons i items)
  from Cons.prems(1) obtain r rs where
    r: "detail_row R hf hs sdir smap i = Inr r" "detail_rows R hf hs sdir smap items = Inr rs"
      "rows = r @ rs"
    by (auto split: sum.splits)
  show ?case
  proof (cases "item = i")
    case True
    with r show ?thesis by auto
  next
    case False
    with Cons.prems(2) have "item \<in> set items" by simp
    from Cons.IH [OF r(2) this] obtain row
      where "detail_row R hf hs sdir smap item = Inr row" "sublist row rs" by blast
    then show ?thesis
      using sublist_mid [of row rs r "[]"] r(3) by auto
  qed
qed

lemma details_section_rows:
  assumes "details_section R (Some items) sdir smap = Inr sec" and "items \<noteq> []"
  shows "\<exists>hs d m rows. detail_rows R (list_ex (\<lambda>item. truthy (dict_get_none item ''failure''))
             items) hs d m items = Inr rows \<and> sublist rows sec"
proof -
  define hf where "hf = list_ex (\<lambda>item. truthy (dict_get_none item ''failure'')) items"
  define hs where "hs = (sdir \<noteq> None \<and> sdir \<noteq> Some [] \<and> smap \<noteq> None \<and> smap \<noteq> Some [])"
  define d where "d = (case sdir of Some d \<Rightarrow> d | None \<Rightarrow> [])"
  define m where "m = (case smap of Some m \<Rightarrow> m | None \<Rightarrow> [])"
  define mnote where "mnote = (if hs then ''Screenshots included below when available.''
     else ''Best-effort list of tests discovered in the xcresult summary. Screenshots and other rich attachments are not included.'')"
  obtain i rest where c: "items = i # rest" using assms(2) by (cases items) auto
  have e: "details_section R (Some items) sdir smap =
      (case detail_rows R hf hs d m items of
         Inl e \<Rightarrow> Inl e
       | Inr rows \<Rightarrow> Inr (details_open @ mnote @ details_thead
                          @ (if hf then th_failure else []) @ thead_close @ rows
                          @ details_close))"
    unfolding hf_def hs_def d_def m_def mnote_def c details_section_def
    by (simp only: option.case list.case Let_def)
  from assms(1) obtain rows
    where r: "detail_rows R hf hs d m items = Inr rows"
      and "sec = details_open @ mnote @ details_thead
                          @ (if hf then th_failure else []) @ thead_close @ rows
                          @ details_close"
    unfolding e by (cases "detail_rows R hf hs d m items") auto
  then have "sec = (details_open @ mnote @ details_thead
                    @ (if hf then th_failure else []) @ thead_close) @ rows @ details_close"
    by simp
  then have "sublist rows sec" by (simp only: sublist_appendI)
  with r show ?thesis unfolding hf_def by blast
qed

lemma build_html_section:
  assumes "build_html R passed failed skipped source_name title details sdir smap = Inr html"
  shows "\<exists>sec. details_section R details sdir smap = Inr sec \<and> sublist sec html"
proof -
  define above where "above = head_doctype @ title @ head_style @ title @ card_intro
      @ show_int (passed + failed + skipped) @ kpi_passed @ show_int passed @ kpi_failed
      @ show_int failed @ kpi_skipped @ show_int skipped @ kpi_close @ source_name @ card_close"
  define below where "below = script_open @ show_int passed @ '', '' @ show_int failed
      @ '', '' @ show_int skipped @ script_close"
  have e: "build_html R passed failed skipped source_name title details sdir smap =
      (case details_section R details sdir smap of
         Inl e \<Rightarrow> Inl e | Inr sec \<Rightarrow> Inr (above @ sec @ below))"
    unfolding above_def below_def by (simp add: build_html_def Let_def)
  from assms obtain sec
    where s: "details_section R details sdir smap = Inr sec" and "html = above @ sec @ below"
    unfolding e by (cases "details_section R details sdir smap") auto
  then have "sublist sec html" by (simp only: sublist_appendI)
  with s show ?thesis by blast
qed

text \<open>
  C1, as the code has it. \<open>build_html\<close> does not escape: for every detail record of the
  report, the name and the suite stand in the document as they are, between the literal
  text of their cells, and so does a non-empty failure text.
\<close>

theorem fields_embedded_verbatim:
  assumes "build_html R passed failed skipped source_name title (Some details) sdir smap
             = Inr html"
    and "item \<in> set details"
    and "map_of item ''name'' = Some (JStr n)"
    and "map_of item ''suite'' = Some (JStr u)"
    and "map_of item ''failure'' = Some (JStr x)"
  shows "sublist (row_open @ n @ cell_suite @ u @ cell_status) html
     \<and> (x \<noteq> [] \<longrightarrow> sublist (cell_failure @ x @ cell_close) html)"
proof -
  define hf where "hf = list_ex (\<lambda>item. truthy (dict_get_none item ''failure'')) details"
  from assms(2) have ne: "details \<noteq> []" by auto
  from build_html_section [OF assms(1)] obtain sec
    where sec: "details_section R (Some details) sdir smap = Inr sec" "sublist sec html"
    by blast
  from details_section_rows [OF sec(1) ne] obtain hs d m rows
    where rows: "detail_rows R hf hs d m details = Inr rows" "sublist rows sec"
    unfolding hf_def by blast
  from detail_rows_member [OF rows(1) assms(2)] obtain row
    where row: "detail_row R hf hs d m item = Inr row" "sublist row rows" by blast
  have in_html: "sublist row html"
    using row(2) rows(2) sec(2) sublist_order.order.trans by blast
  have g: "dict_get item ''name'' (JStr '''') = JStr n"
    "dict_get item ''suite'' (JStr '''') = JStr u"
    "dict_get item ''failure'' (JStr '''') = JStr x"
    using assms(3-5) by (simp_all add: dict_get_def)
  from detail_row_start [OF row(1)] obtain rest where r: "row =
      row_open @ n @ cell_suite @ u @ cell_status
      @ status_color (dict_get item ''status'' (JStr '''')) @ cell_status_style
      @ py_str R (dict_get item ''status'' (JStr '''')) @ cell_close
      @ (if hf then cell_failure @ x @ cell_close else [])
      @ row_close @ rest"
    unfolding g by auto
  have "row = [] @ (row_open @ n @ cell_suite @ u @ cell_status)
      @ (status_color (dict_get item ''status'' (JStr '''')) @ cell_status_style
      @ py_str R (dict_get item ''status'' (JStr '''')) @ cell_close
      @ (if hf then cell_failure @ x @ cell_close else [])
      @ row_close @ rest)"
    unfolding r by simp
  then have "sublist (row_open @ n @ cell_suite @ u @ cell_status) row"
    by (simp only: sublist_appendI)
  with in_html have a: "sublist (row_open @ n @ cell_suite @ u @ cell_status) html"
    using sublist_order.order.trans by blast
  have b: "sublist (cell_failure @ x @ cell_close) html" if "x \<noteq> []"
  proof -
    from that assms(5) have "truthy (dict_get_none item ''failure'')"
      by (simp add: dict_get_none_def dict_get_def)
    with assms(2) have hf unfolding hf_def list_ex_iff by blast
    with r have "row = (row_open @ n @ cell_suite @ u @ cell_status
      @ status_color (dict_get item ''status'' (JStr '''')) @ cell_status_style
      @ py_str R (dict_get item ''status'' (JStr '''')) @ cell_close)
      @ (cell_failure @ x @ cell_close) @ (row_close @ rest)"
      by simp
    then have "sublist (cell_failure @ x @ cell_close) row"
      by (simp only: sublist_appendI)
    with in_html show ?thesis using sublist_order.order.trans by blast
  qed
  from a b show ?thesis by blast
qed

theorem fields_embedded_verbatim_witness:
  "sublist (row_open @ ''testFoo'' @ cell_suite @ ''SuiteA'' @ cell_status)
     (projr (build_html (\<lambda>v. []) 0 1 0 ''App.xcresult'' ''Nightly''
        (Some [[(''name'', JStr ''testFoo''), (''status'', JStr ''Failed''),
                (''suite'', JStr ''SuiteA''), (''failure'', JStr ''expected true''),
                (''testIdentifierString'', JStr ''SuiteA/testFoo'')]]) None None))
   \<and> sublist (cell_failure @ ''expected true'' @ cell_close)
     (projr (build_html (\<lambda>v. []) 0 1 0 ''App.xcresult'' ''Nightly''
        (Some [[(''name'', JStr ''testFoo''), (''status'', JStr ''Failed''),
                (''suite'', JStr ''SuiteA''), (''failure'', JStr ''expected true''),
                (''testIdentifierString'', JStr ''SuiteA/testFoo'')]]) None None))"
proof -
  let ?item = "[(''name'', JStr ''testFoo''), (''status'', JStr ''Failed''),
                (''suite'', JStr ''SuiteA''), (''failure'', JStr ''expected true''),
                (''testIdentifierString'', JStr ''SuiteA/testFoo'')]"
  let ?r = "build_html (\<lambda>v. []) 0 1 0 ''App.xcresult'' ''Nightly'' (Some [?item]) None None"
  have "?r = Inr (projr ?r)"
    by (simp add: build_html_def details_section_def detail_row_def Let_def)
  from fields_embedded_verbatim [OF this, of ?item "''testFoo''" "''SuiteA''" "''expected true''"]
  show ?thesis by simp
qed

lemma literals_no_ampersand:
  "CHR ''&'' \<notin> set head_doctype" "CHR ''&'' \<notin> set head_style" "CHR ''&'' \<notin> set card_intro"
  "CHR ''&'' \<notin> set kpi_passed" "CHR ''&'' \<notin> set kpi_failed" "CHR ''&'' \<notin> set kpi_skipped"
  "CHR ''&'' \<notin> set kpi_close" "CHR ''&'' \<notin> set card_close" "CHR ''&'' \<notin> set details_open"
  "CHR ''&'' \<notin> set details_thead" "CHR ''&'' \<notin> set th_failure"
  "CHR ''&'' \<notin> set thead_close" "CHR ''&'' \<notin> set row_open" "CHR ''&'' \<notin> set cell_suite"
  "CHR ''&'' \<notin> set cell_status" "CHR ''&'' \<notin> set cell_status_style"
  "CHR ''&'' \<notin> set cell_close" "CHR ''&'' \<notin> set cell_failure" "CHR ''&'' \<notin> set row_close"
  "CHR ''&'' \<notin> set details_close" "CHR ''&'' \<notin> set script_open"
  "CHR ''&'' \<notin> set script_close"
  by (simp_all add: head_doctype_def head_style_def card_intro_def kpi_passed_def kpi_failed_def
      kpi_skipped_def kpi_close_def card_close_def details_open_def details_thead_def
      th_failure_def thead_close_def row_open_def cell_suite_def cell_status_def
      cell_status_style_def cell_close_def cell_failure_def row_close_def details_close_def
      script_open_def script_close_def)

text \<open>
  The claim C1 as the specification states it fails: for a record named \<open><b>\<close> the
  document has the name as it is in its cell, and has no ampersand at all, so that the
  escaped name is not in it.
\<close>

theorem markup_in_name_is_not_escaped:
  "sublist (row_open @ ''<b>'' @ cell_suite)
     (projr (build_html (\<lambda>v. []) 0 1 0 ''App.xcresult'' ''Nightly''
        (Some [[(''name'', JStr ''<b>''), (''status'', JStr ''Failed''),
                (''suite'', JStr ''SuiteA''), (''failure'', JStr ''expected true''),
                (''testIdentifierString'', JStr ''SuiteA/testFoo'')]]) None None))
   \<and> html_escape ''<b>'' = ''&lt;b&gt;''
   \<and> \<not> sublist (html_escape ''<b>'')
     (projr (build_html (\<lambda>v. []) 0 1 0 ''App.xcresult'' ''Nightly''
        (Some [[(''name'', JStr ''<b>''), (''status'', JStr ''Failed''),
                (''suite'', JStr ''SuiteA''), (''failure'', JStr ''expected true''),
                (''testIdentifierString'', JStr ''SuiteA/testFoo'')]]) None None))"
proof -
  let ?item = "[(''name'', JStr ''<b>''), (''status'', JStr ''Failed''),
                (''suite'', JStr ''SuiteA''), (''failure'', JStr ''expected true''),
                (''testIdentifierString'', JStr ''SuiteA/testFoo'')]"
  let ?html = "projr (build_html (\<lambda>v. []) 0 1 0 ''App.xcresult'' ''Nightly''
     (Some [?item]) None None)"
  have h: "?html = (head_doctype @ ''Nightly'' @ head_style @ ''Nightly'' @ card_intro
      @ show_int 1 @ kpi_passed @ show_int 0 @ kpi_failed @ show_int 1 @ kpi_skipped
      @ show_int 0 @ kpi_close @ ''App.xcresult'' @ card_close @ details_open
      @ ''Best-effort list of tests discovered in the xcresult summary. Screenshots and other rich attachments are not included.''
      @ details_thead @ th_failure @ thead_close)
      @ (row_open @ ''<b>'' @ cell_suite)
      @ (''SuiteA'' @ cell_status @ ''#ef4444'' @ cell_status_style @ ''Failed'' @ cell_close
      @ cell_failure @ ''expected true'' @ cell_close @ row_close @ details_close
      @ script_open @ show_int 0 @ '', '' @ show_int 1 @ '', '' @ show_int 0 @ script_close)"
    by (simp add: build_html_def details_section_def detail_row_def Let_def dict_get_def
        dict_get_none_def status_color_def)
  have a: "sublist (row_open @ ''<b>'' @ cell_suite) ?html"
    unfolding h by (rule sublist_appendI)
  have e: "html_escape ''<b>'' = ''&lt;b&gt;''" by (simp add: html_escape_def)
  have n: "show_int 0 = ''0''" "show_int 1 = ''1''"
    by (simp_all add: show_int_def show_nat.simps)
  have "CHR ''&'' \<notin> set ?html"
    unfolding h n by (simp add: literals_no_ampersand)
  moreover have "CHR ''&'' \<in> set (html_escape ''<b>'')" unfolding e by simp
  ultimately have "\<not> sublist (html_escape ''<b>'') ?html"
    using set_mono_sublist by blast
  with a e show ?thesis by blast
qed

section \<open>Properties of the conversion\<close>









end
